theory Spec2Isabelle
  imports Main
begin

section \<open>Data model\<close>

text \<open>
  The repository holds two variants of one React page: \<^verbatim>\<open>src/src/App.tsx\<close> (legacy
  transactions only) and the unnamed second file (legacy and version-0 transactions,
  more request-style buttons). Where a function has the same text in both files one
  definition stands for both; where the text differs, the definition taken from
  \<^verbatim>\<open>src/src/App.tsx\<close> carries the prefix \<open>App_\<close>.

  A public key is represented by its base-58 rendering, so \<^verbatim>\<open>toBase58()\<close> is the
  identity.
\<close>

type_synonym pubkey = string
type_synonym bytes = "nat list"

datatype cluster = Devnet | Testnet | MainnetBeta

fun cluster_name :: "cluster \<Rightarrow> string" where
  "cluster_name Devnet = ''devnet''"
| "cluster_name Testnet = ''testnet''"
| "cluster_name MainnetBeta = ''mainnet-beta''"

text \<open>\<^verbatim>\<open>new Connection(endpoint)\<close>: an RPC client handle is the endpoint it points at.\<close>

datatype connection = Connection string

text \<open>
  A promise can reject with any value. Reading a property of \<^verbatim>\<open>undefined\<close> or \<^verbatim>\<open>null\<close>
  throws a \<^verbatim>\<open>TypeError\<close>; reading it of any other value does not. A rejection value is
  therefore either nullish, or a value of which \<^verbatim>\<open>err.code\<close> and \<^verbatim>\<open>err.message\<close> can be
  read; the record holds the text the two reads give.
\<close>

record js_error =
  err_code :: string
  err_message :: string

datatype rejection = Nullish | ErrorObject js_error

definition type_error :: js_error where
  "type_error = \<lparr>err_code = [], err_message = ''Cannot read properties of undefined''\<rparr>"

text \<open>
  The model remembers where a rejection came from. The JavaScript value does not carry
  this; it is bookkeeping that lets a theorem speak about rejected provider calls only.
\<close>

datatype origin = FromProvider | FromRpc | FromLibrary | FromRuntime

datatype failure = Failure origin rejection

fun rejection_of :: "failure \<Rightarrow> rejection" where
  "rejection_of (Failure _ r) = r"

text \<open>
  Instructions: \<^verbatim>\<open>SystemProgram.transfer({fromPubkey, toPubkey, lamports})\<close> and the token
  program's \<^verbatim>\<open>createTransferInstruction(source, destination, owner, amount)\<close>.
\<close>

datatype instruction =
    SystemTransfer pubkey pubkey nat
  | TokenTransfer pubkey pubkey pubkey nat

text \<open>A legacy \<^verbatim>\<open>Transaction\<close>; \<^verbatim>\<open>new Transaction()\<close> has no fee payer and no block hash.\<close>

record transaction =
  instructions :: "instruction list"
  feePayer :: "pubkey option"
  recentBlockhash :: "string option"

definition new_Transaction :: transaction where
  "new_Transaction = \<lparr>instructions = [], feePayer = None, recentBlockhash = None\<rparr>"

definition add :: "transaction \<Rightarrow> instruction \<Rightarrow> transaction" where
  "add t i = t\<lparr>instructions := instructions t @ [i]\<rparr>"

text \<open>
  The account \<^verbatim>\<open>getAddressLookupTable\<close> answers with (its \<^verbatim>\<open>value\<close> is null when the
  cluster has no such table), and a version-0 message. The compiler of the message belongs
  to the chain library, which is not part of the repository; a compiled message is
  represented by the arguments it was compiled from: \<^verbatim>\<open>payerKey\<close>, \<^verbatim>\<open>recentBlockhash\<close>,
  \<^verbatim>\<open>instructions\<close> and the tables handed to \<^verbatim>\<open>compileToV0Message\<close> (none when it is called
  without an argument). The compiler reads the addresses of each table it is handed, so
  on a null table it throws.
\<close>

record lookup_table =
  table_key :: pubkey
  table_addresses :: "pubkey list"

record message_v0 =
  payerKey :: pubkey
  v0_recentBlockhash :: string
  v0_instructions :: "instruction list"
  v0_tables :: "lookup_table list"

text \<open>
  What a handler hands to the wallet. \<open>BareInstruction\<close> is the object that
  \<^verbatim>\<open>createSplTokenTransferTransaction\<close> of \<^verbatim>\<open>src/src/App.tsx\<close> returns: the instruction
  itself with a \<^verbatim>\<open>recentBlockhash\<close> property assigned to it.
\<close>

datatype payload =
    Legacy transaction
  | Versioned message_v0
  | BareInstruction instruction string

fun payload_feePayer :: "payload \<Rightarrow> pubkey option" where
  "payload_feePayer (Legacy t) = feePayer t"
| "payload_feePayer (Versioned m) = Some (payerKey m)"
| "payload_feePayer (BareInstruction i b) = None"

fun payload_blockhash :: "payload \<Rightarrow> string option" where
  "payload_blockhash (Legacy t) = recentBlockhash t"
| "payload_blockhash (Versioned m) = Some (v0_recentBlockhash m)"
| "payload_blockhash (BareInstruction i b) = Some b"

text \<open>A transaction as the wallet returns it from a signing call.\<close>

record signed_tx =
  signed_payload :: payload
  signed_by :: string

text \<open>The options object of \<^verbatim>\<open>signAndSendTransaction\<close>.\<close>

record send_options =
  maxRetries :: nat
  preflightCommitment :: string
  skipPreflight :: bool

text \<open>The argument of the generic \<^verbatim>\<open>request\<close> call: a method name and a parameter object.\<close>

datatype params =
    MessageParams string
  | MessageOptionParams string send_options
  | MessageListParams "string list"
  | SignMessageParams bytes "string option"
  | ConnectParams bool

record request =
  req_method :: string
  req_params :: "params option"

text \<open>The answer of \<^verbatim>\<open>request\<close>, as far as the page reads it: its \<^verbatim>\<open>signature\<close> field.\<close>

record request_result =
  res_signature :: string
  res_rest :: string

section \<open>The environment: wallet, RPC client, libraries\<close>

text \<open>
  Every call that leaves the page is recorded in a trace. The answer to a call is given by
  the environment as a function of the call's arguments and of the number of calls made
  before it, so that two equal requests can be answered differently. \<open>Inl\<close> is a rejected
  promise.
\<close>

datatype rpc_call =
    GetRecentBlockhash string
  | GetLatestBlockhash
  | GetAddressLookupTable pubkey
  | ConfirmTransaction string
  | SendRawTransaction bytes

datatype provider_call =
    Connect "bool option"
  | Disconnect
  | SignTransaction "payload option"
  | SignAllTransactions "payload list"
  | SignMessage bytes "string option"
  | SignAndSendTransaction payload send_options
  | Request request

datatype call =
    Rpc connection rpc_call
  | Provider provider_call
  | GetAssociatedTokenAddress pubkey pubkey
  | WindowOpen string string

text \<open>
  The injected wallet object (\<^verbatim>\<open>interface PhantomProvider\<close>, and the
  \<^verbatim>\<open>signAndSendTransaction\<close> method the page calls on \<^verbatim>\<open>window.solana\<close>). The argument
  of \<^verbatim>\<open>connect\<close> is the value of \<^verbatim>\<open>onlyIfTrusted\<close> when an options object is passed.
  The answer of \<^verbatim>\<open>signMessage\<close> is only ever passed to \<^verbatim>\<open>JSON.stringify\<close>; it is represented
  by that text.
\<close>

record wallet =
  isPhantom :: bool
  wallet_publicKey :: "pubkey option"
  wallet_connect :: "nat \<Rightarrow> bool option \<Rightarrow> rejection + pubkey"
  wallet_disconnect :: "nat \<Rightarrow> rejection + unit"
  wallet_signTransaction :: "nat \<Rightarrow> payload option \<Rightarrow> rejection + signed_tx"
  wallet_signAllTransactions :: "nat \<Rightarrow> payload list \<Rightarrow> rejection + signed_tx list"
  wallet_signMessage :: "nat \<Rightarrow> bytes \<Rightarrow> string option \<Rightarrow> rejection + string"
  wallet_signAndSendTransaction :: "nat \<Rightarrow> payload \<Rightarrow> send_options \<Rightarrow> rejection + string"
  wallet_request :: "nat \<Rightarrow> request \<Rightarrow> rejection + request_result"

text \<open>The RPC client, reached through the page's current \<^verbatim>\<open>connection\<close>.\<close>

record rpc =
  rpc_getRecentBlockhash :: "nat \<Rightarrow> connection \<Rightarrow> string \<Rightarrow> rejection + string"
  rpc_getLatestBlockhash :: "nat \<Rightarrow> connection \<Rightarrow> rejection + string"
  rpc_getAddressLookupTable :: "nat \<Rightarrow> connection \<Rightarrow> pubkey \<Rightarrow> rejection + lookup_table option"
  rpc_confirmTransaction :: "nat \<Rightarrow> connection \<Rightarrow> string \<Rightarrow> rejection + unit"
  rpc_sendRawTransaction :: "nat \<Rightarrow> connection \<Rightarrow> bytes \<Rightarrow> rejection + string"

text \<open>
  Pure functions of the imported libraries and of the JavaScript runtime, taken as
  parameters: \<^verbatim>\<open>clusterApiUrl\<close>, \<^verbatim>\<open>serializeMessage\<close>, \<^verbatim>\<open>message.serialize\<close>,
  \<^verbatim>\<open>serialize\<close>, \<^verbatim>\<open>bs58.encode\<close>, \<^verbatim>\<open>TextEncoder.encode\<close>,
  \<^verbatim>\<open>getAssociatedTokenAddress\<close> (asynchronous, reads no state) and \<^verbatim>\<open>JSON.stringify\<close> at
  the types the page applies it to.
\<close>

record sdk =
  clusterApiUrl :: "cluster \<Rightarrow> string"
  serializeMessage :: "transaction \<Rightarrow> bytes"
  serializeMessageV0 :: "message_v0 \<Rightarrow> bytes"
  serialize :: "signed_tx \<Rightarrow> bytes"
  bs58_encode :: "bytes \<Rightarrow> string"
  utf8_encode :: "string \<Rightarrow> bytes"
  getAssociatedTokenAddress :: "pubkey \<Rightarrow> pubkey \<Rightarrow> rejection + pubkey"
  json_error :: "rejection \<Rightarrow> string"
  json_payload :: "payload \<Rightarrow> string"
  json_signed :: "signed_tx \<Rightarrow> string"
  json_signed_list :: "signed_tx list \<Rightarrow> string"
  json_string :: "string \<Rightarrow> string"
  json_string_list :: "string list \<Rightarrow> string"
  json_result :: "request_result \<Rightarrow> string"

record env =
  provider :: wallet
  client :: rpc
  lib :: sdk

section \<open>Page state\<close>

text \<open>
  The React state of \<^verbatim>\<open>App\<close> (\<^verbatim>\<open>logs\<close>, \<^verbatim>\<open>cluster\<close>, \<^verbatim>\<open>connection\<close>, the connected flag
  whose reader is discarded in \<^verbatim>\<open>const [, setConnected]\<close>, \<^verbatim>\<open>publicKey\<close>) and the trace
  of outgoing calls. Console output is not modelled.
\<close>

record world =
  logs :: "string list"
  cluster :: cluster
  connection :: connection
  connected :: bool
  publicKey :: "pubkey option"
  trace :: "call list"

definition initial_world :: "sdk \<Rightarrow> world" where
  "initial_world s =
     \<lparr>logs = [], cluster = Devnet, connection = Connection (clusterApiUrl s Devnet),
      connected = False, publicKey = None, trace = []\<rparr>"

text \<open>\<^verbatim>\<open>addLog = (log) => setLogs((logs) => [...logs, "> " + log])\<close>\<close>

definition addLog :: "string \<Rightarrow> world \<Rightarrow> world" where
  "addLog log w = w\<lparr>logs := logs w @ [''> '' @ log]\<rparr>"

definition setPublicKey :: "pubkey option \<Rightarrow> world \<Rightarrow> world" where
  "setPublicKey k w = w\<lparr>publicKey := k\<rparr>"

definition setConnected :: "bool \<Rightarrow> world \<Rightarrow> world" where
  "setConnected b w = w\<lparr>connected := b\<rparr>"

definition setConnection :: "connection \<Rightarrow> world \<Rightarrow> world" where
  "setConnection c w = w\<lparr>connection := c\<rparr>"

definition setCluster :: "cluster \<Rightarrow> world \<Rightarrow> world" where
  "setCluster c w = w\<lparr>cluster := c\<rparr>"

section \<open>Asynchronous code as state passing with rejections\<close>

text \<open>
  An \<^verbatim>\<open>async\<close> body is a function from the state to a settled result and the new state;
  \<open>await\<close> stops at the first rejection, as a rejected \<^verbatim>\<open>await\<close> throws.
\<close>

type_synonym 'a io = "world \<Rightarrow> (failure + 'a) \<times> world"

definition resolve :: "'a \<Rightarrow> 'a io" where
  "resolve x w = (Inr x, w)"

definition reject :: "failure \<Rightarrow> 'a io" where
  "reject f w = (Inl f, w)"

definition await :: "'a io \<Rightarrow> ('a \<Rightarrow> 'b io) \<Rightarrow> 'b io" where
  "await m k w = (case m w of (Inl f, w') \<Rightarrow> (Inl f, w') | (Inr x, w') \<Rightarrow> k x w')"

definition effect :: "(world \<Rightarrow> world) \<Rightarrow> unit io" where
  "effect f w = (Inr (), f w)"

text \<open>
  \<^verbatim>\<open>try { body } catch (err) { handler }\<close> around a whole handler. The \<^verbatim>\<open>catch\<close> block is
  code that can throw as well; nobody catches what it throws, so of the block only its
  effect on the state remains.
\<close>

definition try_catch :: "unit io \<Rightarrow> (rejection \<Rightarrow> unit io) \<Rightarrow> world \<Rightarrow> world" where
  "try_catch body handler w =
     (case body w of
        (Inl f, w') \<Rightarrow> snd (handler (rejection_of f) w')
      | (Inr u, w') \<Rightarrow> w')"

text \<open>
  \<^verbatim>\<open>console.warn(err.code + err.message)\<close>, the first statement of the \<^verbatim>\<open>catch\<close> block of
  the token-transfer handlers: the two reads throw when \<^verbatim>\<open>err\<close> is nullish.
\<close>

definition read_code_and_message :: "rejection \<Rightarrow> string io" where
  "read_code_and_message err =
     (case err of
        Nullish \<Rightarrow> reject (Failure FromRuntime (ErrorObject type_error))
      | ErrorObject x \<Rightarrow> resolve (err_code x @ err_message x))"

text \<open>A call of a wallet method, of an RPC method, of the token library.\<close>

definition call_provider :: "provider_call \<Rightarrow> (nat \<Rightarrow> rejection + 'a) \<Rightarrow> 'a io" where
  "call_provider c answer w =
     (case answer (length (trace w)) of
        Inl e \<Rightarrow> (Inl (Failure FromProvider e), w\<lparr>trace := trace w @ [Provider c]\<rparr>)
      | Inr x \<Rightarrow> (Inr x, w\<lparr>trace := trace w @ [Provider c]\<rparr>))"

definition call_rpc :: "rpc_call \<Rightarrow> (nat \<Rightarrow> connection \<Rightarrow> rejection + 'a) \<Rightarrow> 'a io" where
  "call_rpc c answer w =
     (case answer (length (trace w)) (connection w) of
        Inl e \<Rightarrow> (Inl (Failure FromRpc e), w\<lparr>trace := trace w @ [Rpc (connection w) c]\<rparr>)
      | Inr x \<Rightarrow> (Inr x, w\<lparr>trace := trace w @ [Rpc (connection w) c]\<rparr>))"

definition call_getAssociatedTokenAddress :: "env \<Rightarrow> pubkey \<Rightarrow> pubkey \<Rightarrow> pubkey io" where
  "call_getAssociatedTokenAddress e mint owner w =
     (case getAssociatedTokenAddress (lib e) mint owner of
        Inl err \<Rightarrow> (Inl (Failure FromLibrary err), w\<lparr>trace := trace w @ [GetAssociatedTokenAddress mint owner]\<rparr>)
      | Inr a \<Rightarrow> (Inr a, w\<lparr>trace := trace w @ [GetAssociatedTokenAddress mint owner]\<rparr>))"

section \<open>Calls of the RPC client and of the wallet\<close>

definition connect_call :: "wallet \<Rightarrow> bool option \<Rightarrow> pubkey io" where
  "connect_call p opts = call_provider (Connect opts) (\<lambda>n. wallet_connect p n opts)"

definition disconnect_call :: "wallet \<Rightarrow> unit io" where
  "disconnect_call p = call_provider Disconnect (wallet_disconnect p)"

definition signTransaction_call :: "wallet \<Rightarrow> payload option \<Rightarrow> signed_tx io" where
  "signTransaction_call p t = call_provider (SignTransaction t) (\<lambda>n. wallet_signTransaction p n t)"

definition signAllTransactions_call :: "wallet \<Rightarrow> payload list \<Rightarrow> signed_tx list io" where
  "signAllTransactions_call p ts =
     call_provider (SignAllTransactions ts) (\<lambda>n. wallet_signAllTransactions p n ts)"

definition signMessage_call :: "wallet \<Rightarrow> bytes \<Rightarrow> string option \<Rightarrow> string io" where
  "signMessage_call p d display =
     call_provider (SignMessage d display) (\<lambda>n. wallet_signMessage p n d display)"

definition signAndSendTransaction_call :: "wallet \<Rightarrow> payload \<Rightarrow> send_options \<Rightarrow> string io" where
  "signAndSendTransaction_call p t opts =
     call_provider (SignAndSendTransaction t opts) (\<lambda>n. wallet_signAndSendTransaction p n t opts)"

definition request_call :: "wallet \<Rightarrow> request \<Rightarrow> request_result io" where
  "request_call p r = call_provider (Request r) (\<lambda>n. wallet_request p n r)"

definition getRecentBlockhash_call :: "env \<Rightarrow> string \<Rightarrow> string io" where
  "getRecentBlockhash_call e commitment =
     call_rpc (GetRecentBlockhash commitment) (\<lambda>n c. rpc_getRecentBlockhash (client e) n c commitment)"

definition getLatestBlockhash_call :: "env \<Rightarrow> string io" where
  "getLatestBlockhash_call e = call_rpc GetLatestBlockhash (rpc_getLatestBlockhash (client e))"

definition getAddressLookupTable_call :: "env \<Rightarrow> pubkey \<Rightarrow> lookup_table option io" where
  "getAddressLookupTable_call e a =
     call_rpc (GetAddressLookupTable a) (\<lambda>n c. rpc_getAddressLookupTable (client e) n c a)"

definition confirmTransaction_call :: "env \<Rightarrow> string \<Rightarrow> unit io" where
  "confirmTransaction_call e signature =
     call_rpc (ConfirmTransaction signature) (\<lambda>n c. rpc_confirmTransaction (client e) n c signature)"

definition sendRawTransaction_call :: "env \<Rightarrow> bytes \<Rightarrow> string io" where
  "sendRawTransaction_call e raw =
     call_rpc (SendRawTransaction raw) (\<lambda>n c. rpc_sendRawTransaction (client e) n c raw)"

section \<open>Provider session: detection, events, cluster selection\<close>

text \<open>
  \<^verbatim>\<open>getProvider\<close>. The test \<^verbatim>\<open>"solana" in window\<close> asks whether the property exists, not
  what it holds: the host environment has no \<^verbatim>\<open>solana\<close> property, or has one that holds
  \<^verbatim>\<open>undefined\<close> or \<^verbatim>\<open>null\<close>, or has one that holds an object. On a nullish value the read
  \<^verbatim>\<open>provider.isPhantom\<close> throws. The result is what is returned or thrown, together with
  the tabs opened.
\<close>

datatype injected = NullishValue | InjectedObject wallet

record host_window =
  solana :: "injected option"

definition getProvider :: "host_window \<Rightarrow> (failure + wallet option) \<times> call list" where
  "getProvider win =
     (case solana win of
        Some NullishValue \<Rightarrow> (Inl (Failure FromRuntime (ErrorObject type_error)), [])
      | Some (InjectedObject p) \<Rightarrow>
          if isPhantom p then (Inr (Some p), [])
          else (Inr None, [WindowOpen ''https://phantom.app/'' ''_blank''])
      | None \<Rightarrow> (Inr None, [WindowOpen ''https://phantom.app/'' ''_blank'']))"

text \<open>
  The three handlers registered with \<^verbatim>\<open>provider.on\<close>. The \<^verbatim>\<open>.catch\<close> of the reconnect reads
  \<^verbatim>\<open>err.message\<close> before it logs: on a nullish rejection the read throws and nothing is
  logged.
\<close>

definition on_connect :: "pubkey \<Rightarrow> world \<Rightarrow> world" where
  "on_connect k w = addLog (''[connect] '' @ k) (setConnected True (setPublicKey (Some k) w))"

text \<open>
  The sign at the end of the disconnect line, as the bytes of the source text: the four
  bytes of the waving hand in the second file, ten other bytes in \<^verbatim>\<open>src/src/App.tsx\<close>.
\<close>

definition waving_hand :: string where
  "waving_hand = [CHR 0xF0, CHR 0x9F, CHR 0x91, CHR 0x8B]"

definition App_waving_hand :: string where
  "App_waving_hand =
     [CHR 0xC3, CHR 0xB0, CHR 0xC5, CHR 0xB8, CHR 0xE2, CHR 0x80, CHR 0x98, CHR 0xE2, CHR 0x80,
      CHR 0xB9]"

definition on_disconnect :: "world \<Rightarrow> world" where
  "on_disconnect w =
     addLog (''[disconnect] '' @ waving_hand) (setConnected False (setPublicKey None w))"

definition on_accountChanged :: "wallet \<Rightarrow> pubkey option \<Rightarrow> world \<Rightarrow> world" where
  "on_accountChanged p k w =
     (case k of
        Some key \<Rightarrow> addLog (''[accountChanged] Switched account to '' @ key) (setPublicKey k w)
      | None \<Rightarrow>
          (case connect_call p None
                  (addLog ''[accountChanged] Switched unknown account'' (setPublicKey k w)) of
             (Inr u, w') \<Rightarrow> addLog ''[accountChanged] Reconnected successfully'' w'
           | (Inl f, w') \<Rightarrow>
               (case rejection_of f of
                  Nullish \<Rightarrow> w'
                | ErrorObject x \<Rightarrow>
                    addLog (''[accountChanged] Failed to re-connect: '' @ err_message x) w')))"

definition App_on_disconnect :: "world \<Rightarrow> world" where
  "App_on_disconnect w =
     addLog (''[disconnect] '' @ App_waving_hand) (setConnected False (setPublicKey None w))"

datatype event = ConnectEvent pubkey | DisconnectEvent | AccountChangedEvent "pubkey option"

fun handle_event :: "wallet \<Rightarrow> event \<Rightarrow> world \<Rightarrow> world" where
  "handle_event p (ConnectEvent k) w = on_connect k w"
| "handle_event p DisconnectEvent w = on_disconnect w"
| "handle_event p (AccountChangedEvent k) w = on_accountChanged p k w"

fun App_handle_event :: "wallet \<Rightarrow> event \<Rightarrow> world \<Rightarrow> world" where
  "App_handle_event p (ConnectEvent k) w = on_connect k w"
| "App_handle_event p DisconnectEvent w = App_on_disconnect w"
| "App_handle_event p (AccountChangedEvent k) w = on_accountChanged p k w"

text \<open>
  The effect that runs on mount: nothing without a provider, otherwise the eager connect
  whose rejection is swallowed by \<^verbatim>\<open>.catch((err) => {})\<close>. Its cleanup calls
  \<^verbatim>\<open>provider.disconnect()\<close> and drops the promise.
\<close>

definition eager_connect_try :: "wallet \<Rightarrow> pubkey io" where
  "eager_connect_try p = connect_call p (Some True)"

definition useEffect_provider :: "wallet option \<Rightarrow> world \<Rightarrow> world" where
  "useEffect_provider p w =
     (case p of None \<Rightarrow> w | Some q \<Rightarrow> snd (eager_connect_try q w))"

definition useEffect_provider_cleanup :: "wallet \<Rightarrow> world \<Rightarrow> world" where
  "useEffect_provider_cleanup p w = snd (disconnect_call p w)"

text \<open>
  The cluster selector's \<^verbatim>\<open>onChange\<close>, and the effect with dependencies
  \<^verbatim>\<open>[cluster, addLog]\<close>: \<^verbatim>\<open>addLog\<close> never changes, so after the first render the effect runs
  exactly when the committed \<^verbatim>\<open>cluster\<close> differs from the previous one.
\<close>

definition select_onChange :: "sdk \<Rightarrow> cluster \<Rightarrow> world \<Rightarrow> world" where
  "select_onChange s newCluster w =
     setCluster newCluster (setConnection (Connection (clusterApiUrl s newCluster)) w)"

definition useEffect_cluster :: "cluster \<Rightarrow> world \<Rightarrow> world" where
  "useEffect_cluster previous w =
     (if cluster w = previous then w
      else addLog (''[cluster changed] '' @ cluster_name (cluster w)) w)"

definition change_cluster :: "sdk \<Rightarrow> cluster \<Rightarrow> world \<Rightarrow> world" where
  "change_cluster s newCluster w = useEffect_cluster (cluster w) (select_onChange s newCluster w)"

section \<open>Building unsigned payloads\<close>

text \<open>
  \<^verbatim>\<open>createTransferTransaction\<close>. The chain
  \<^verbatim>\<open>"finalized" || "recent" || ...\<close> evaluates to its first operand.
\<close>

definition confimationLvl :: string where
  "confimationLvl = ''finalized''"

definition createTransferTransaction :: "env \<Rightarrow> transaction option io" where
  "createTransferTransaction e =
     (case wallet_publicKey (provider e) of
        None \<Rightarrow> resolve None
      | Some k \<Rightarrow>
          (let transaction = (add new_Transaction (SystemTransfer k k 100))\<lparr>feePayer := Some k\<rparr>
           in
             await (effect (addLog ''Getting recent blockhash'')) (\<lambda>u.
             await (getRecentBlockhash_call e confimationLvl) (\<lambda>blockhash.
             await (effect (addLog (''blockhash: '' @ blockhash @ '' = '' @ confimationLvl))) (\<lambda>u.
             resolve (Some (transaction\<lparr>recentBlockhash := Some blockhash\<rparr>)))))))"

text \<open>The token transfer of the second file: a transaction around the instruction.\<close>

definition token_mint :: pubkey where
  "token_mint = ''D3tynVS3dHGoShEZQcSbsJ69DnoWunhcgya35r5Dtn4p''"

definition token_recipient :: pubkey where
  "token_recipient = ''5ofLtZax45EhkNSkoBrDPdWNonKmijMTsW41ckzPs2r5''"

definition createSplTokenTransferTransaction :: "env \<Rightarrow> transaction option io" where
  "createSplTokenTransferTransaction e =
     (case wallet_publicKey (provider e) of
        None \<Rightarrow> resolve None
      | Some k \<Rightarrow>
          await (call_getAssociatedTokenAddress e token_mint k) (\<lambda>from_token_account.
          await (call_getAssociatedTokenAddress e token_mint token_recipient) (\<lambda>to_token_account.
          (let ins = TokenTransfer from_token_account to_token_account k 10000000;
               tx = (add new_Transaction ins)\<lparr>feePayer := Some k\<rparr>
           in
             await (getRecentBlockhash_call e ''finalized'') (\<lambda>blockhash.
             await (effect (addLog (''blockhash: '' @ blockhash @ '' = '' @ ''finalized''))) (\<lambda>u.
             resolve (Some (tx\<lparr>recentBlockhash := Some blockhash\<rparr>))))))))"

text \<open>
  The token transfer of \<^verbatim>\<open>src/src/App.tsx\<close>: the instruction itself is returned, with the
  block hash assigned to it; no transaction is built and no fee payer is set.
\<close>

definition App_createSplTokenTransferTransaction :: "env \<Rightarrow> payload option io" where
  "App_createSplTokenTransferTransaction e =
     (case wallet_publicKey (provider e) of
        None \<Rightarrow> resolve None
      | Some k \<Rightarrow>
          await (call_getAssociatedTokenAddress e token_mint k) (\<lambda>from_token_account.
          await (call_getAssociatedTokenAddress e token_mint token_recipient) (\<lambda>to_token_account.
          await (getRecentBlockhash_call e ''finalized'') (\<lambda>blockhash.
          await (effect (addLog (''blockhash: '' @ blockhash @ '' = '' @ ''finalized''))) (\<lambda>u.
          resolve (Some (BareInstruction
                           (TokenTransfer from_token_account to_token_account k 10000000)
                           blockhash)))))))"

text \<open>The two version-0 builders of the second file.\<close>

definition kTestToPublicKeyInTableLookup :: pubkey where
  "kTestToPublicKeyInTableLookup = ''Ed8JG8SuyLgG6A9Km3PSKtVD8a4Xoqr6cATfswZKbQCW''"

definition createTransferTransactionV0 :: "env \<Rightarrow> message_v0 option io" where
  "createTransferTransactionV0 e =
     (case wallet_publicKey (provider e) of
        None \<Rightarrow> resolve None
      | Some k \<Rightarrow>
          await (getLatestBlockhash_call e) (\<lambda>blockhash.
          resolve (Some \<lparr>payerKey = k, v0_recentBlockhash = blockhash,
                          v0_instructions = [SystemTransfer k k 100], v0_tables = []\<rparr>)))"

definition createTransferTransactionV0WithLookupTable :: "env \<Rightarrow> pubkey \<Rightarrow> message_v0 option io" where
  "createTransferTransactionV0WithLookupTable e lookupTableAddress =
     (case wallet_publicKey (provider e) of
        None \<Rightarrow> resolve None
      | Some k \<Rightarrow>
          await (getAddressLookupTable_call e lookupTableAddress) (\<lambda>lookupTableAccount.
          await (getLatestBlockhash_call e) (\<lambda>blockhash.
          case lookupTableAccount of
            None \<Rightarrow> reject (Failure FromRuntime (ErrorObject type_error))
          | Some table \<Rightarrow>
              resolve (Some \<lparr>payerKey = k, v0_recentBlockhash = blockhash,
                              v0_instructions = [SystemTransfer k kTestToPublicKeyInTableLookup 100],
                              v0_tables = [table]\<rparr>))))"

section \<open>Two builders started together\<close>

text \<open>
  \<^verbatim>\<open>Promise.all([f(), f()])\<close> starts both builders before either is resumed: each runs to
  its first \<^verbatim>\<open>await\<close>, then the answers are handled in the order of the requests. A
  builder is therefore split at its \<^verbatim>\<open>await\<close>s. Nothing cancels the second builder when
  the first one rejects; the model lets it run to its end before the handler goes on with
  the earliest rejection.

  The order in which the answers of the node arrive is not the page's to choose. The model
  fixes one schedule, the order of the requests, and runs the \<^verbatim>\<open>catch\<close> block of the
  handler after the last builder; in the browser the answers may arrive in the other
  order, and the error line of a rejected first builder may precede the lines of the
  second. The builders call the node and the library only, never the wallet.
\<close>

definition resume :: "(world \<Rightarrow> 's \<times> world) \<Rightarrow> ('s \<Rightarrow> 'a io) \<Rightarrow> 'a io" where
  "resume start finish w = (case start w of (s, w') \<Rightarrow> finish s w')"

definition promise_all2 :: "(world \<Rightarrow> 's \<times> world) \<Rightarrow> ('s \<Rightarrow> 'a io) \<Rightarrow> ('a \<times> 'a) io" where
  "promise_all2 start finish w =
     (case start w of (s1, w1) \<Rightarrow>
      case start w1 of (s2, w2) \<Rightarrow>
      case finish s1 w2 of (r1, w3) \<Rightarrow>
      case finish s2 w3 of (r2, w4) \<Rightarrow>
        (case r1 of
           Inl f \<Rightarrow> (Inl f, w4)
         | Inr a \<Rightarrow> (case r2 of Inl f \<Rightarrow> (Inl f, w4) | Inr b \<Rightarrow> (Inr (a, b), w4))))"

definition promise_all3 ::
  "(world \<Rightarrow> 's \<times> world) \<Rightarrow> ('s \<Rightarrow> 'm io) \<Rightarrow> ('m \<Rightarrow> 'a io) \<Rightarrow> ('a \<times> 'a) io" where
  "promise_all3 start middle finish w =
     (case start w of (s1, w1) \<Rightarrow>
      case start w1 of (s2, w2) \<Rightarrow>
      case middle s1 w2 of (m1, w3) \<Rightarrow>
      case middle s2 w3 of (m2, w4) \<Rightarrow>
        (case m1 of
           Inl f \<Rightarrow>
             (case m2 of
                Inl g \<Rightarrow> (Inl f, w4)
              | Inr y \<Rightarrow> (Inl f, snd (finish y w4)))
         | Inr x \<Rightarrow>
             (case m2 of
                Inl g \<Rightarrow> (Inl g, snd (finish x w4))
              | Inr y \<Rightarrow>
                  (case finish x w4 of (r1, w5) \<Rightarrow>
                   case finish y w5 of (r2, w6) \<Rightarrow>
                     (case r1 of
                        Inl f \<Rightarrow> (Inl f, w6)
                      | Inr a \<Rightarrow> (case r2 of Inl f \<Rightarrow> (Inl f, w6) | Inr b \<Rightarrow> (Inr (a, b), w6)))))))"

text \<open>\<^verbatim>\<open>createTransferTransaction\<close> up to its \<^verbatim>\<open>await\<close>, and from there on.\<close>

definition createTransferTransaction_start ::
  "env \<Rightarrow> world \<Rightarrow> (transaction \<times> (failure + string)) option \<times> world" where
  "createTransferTransaction_start e w =
     (case wallet_publicKey (provider e) of
        None \<Rightarrow> (None, w)
      | Some k \<Rightarrow>
          (case getRecentBlockhash_call e confimationLvl (addLog ''Getting recent blockhash'' w) of
             (answer, w') \<Rightarrow>
               (Some ((add new_Transaction (SystemTransfer k k 100))\<lparr>feePayer := Some k\<rparr>, answer),
                w')))"

definition createTransferTransaction_finish ::
  "(transaction \<times> (failure + string)) option \<Rightarrow> transaction option io" where
  "createTransferTransaction_finish s =
     (case s of
        None \<Rightarrow> resolve None
      | Some (transaction, Inl f) \<Rightarrow> reject f
      | Some (transaction, Inr blockhash) \<Rightarrow>
          await (effect (addLog (''blockhash: '' @ blockhash @ '' = '' @ confimationLvl))) (\<lambda>u.
          resolve (Some (transaction\<lparr>recentBlockhash := Some blockhash\<rparr>))))"

text \<open>\<^verbatim>\<open>createTransferTransactionV0\<close> in the same two parts.\<close>

definition createTransferTransactionV0_start ::
  "env \<Rightarrow> world \<Rightarrow> (pubkey \<times> (failure + string)) option \<times> world" where
  "createTransferTransactionV0_start e w =
     (case wallet_publicKey (provider e) of
        None \<Rightarrow> (None, w)
      | Some k \<Rightarrow> (case getLatestBlockhash_call e w of (answer, w') \<Rightarrow> (Some (k, answer), w')))"

definition createTransferTransactionV0_finish ::
  "(pubkey \<times> (failure + string)) option \<Rightarrow> message_v0 option io" where
  "createTransferTransactionV0_finish s =
     (case s of
        None \<Rightarrow> resolve None
      | Some (k, Inl f) \<Rightarrow> reject f
      | Some (k, Inr blockhash) \<Rightarrow>
          resolve (Some \<lparr>payerKey = k, v0_recentBlockhash = blockhash,
                          v0_instructions = [SystemTransfer k k 100], v0_tables = []\<rparr>))"

text \<open>\<^verbatim>\<open>createTransferTransactionV0WithLookupTable\<close> has two \<^verbatim>\<open>await\<close>s, so three parts.\<close>

definition createTransferTransactionV0WithLookupTable_start ::
  "env \<Rightarrow> pubkey \<Rightarrow> world \<Rightarrow> (pubkey \<times> (failure + lookup_table option)) option \<times> world" where
  "createTransferTransactionV0WithLookupTable_start e lookupTableAddress w =
     (case wallet_publicKey (provider e) of
        None \<Rightarrow> (None, w)
      | Some k \<Rightarrow>
          (case getAddressLookupTable_call e lookupTableAddress w of
             (answer, w') \<Rightarrow> (Some (k, answer), w')))"

definition createTransferTransactionV0WithLookupTable_middle ::
  "env \<Rightarrow> (pubkey \<times> (failure + lookup_table option)) option
     \<Rightarrow> (pubkey \<times> lookup_table option \<times> (failure + string)) option io" where
  "createTransferTransactionV0WithLookupTable_middle e s =
     (case s of
        None \<Rightarrow> resolve None
      | Some (k, Inl f) \<Rightarrow> reject f
      | Some (k, Inr lookupTableAccount) \<Rightarrow>
          (\<lambda>w. case getLatestBlockhash_call e w of
                 (answer, w') \<Rightarrow> (Inr (Some (k, lookupTableAccount, answer)), w')))"

definition createTransferTransactionV0WithLookupTable_finish ::
  "(pubkey \<times> lookup_table option \<times> (failure + string)) option \<Rightarrow> message_v0 option io" where
  "createTransferTransactionV0WithLookupTable_finish m =
     (case m of
        None \<Rightarrow> resolve None
      | Some (k, lookupTableAccount, Inl f) \<Rightarrow> reject f
      | Some (k, None, Inr blockhash) \<Rightarrow> reject (Failure FromRuntime (ErrorObject type_error))
      | Some (k, Some table, Inr blockhash) \<Rightarrow>
          resolve (Some \<lparr>payerKey = k, v0_recentBlockhash = blockhash,
                          v0_instructions = [SystemTransfer k kTestToPublicKeyInTableLookup 100],
                          v0_tables = [table]\<rparr>))"

section \<open>Sign-and-send handlers\<close>

definition callSignAndSendTransaction :: "env \<Rightarrow> payload \<Rightarrow> string \<Rightarrow> string io" where
  "callSignAndSendTransaction e transaction commitment =
     await (signAndSendTransaction_call (provider e) transaction
              \<lparr>maxRetries = 3, preflightCommitment = commitment, skipPreflight = False\<rparr>)
       (\<lambda>signature.
     await (confirmTransaction_call e signature) (\<lambda>u.
     await (effect (addLog (''Transaction '' @ signature @ '' confirmed''))) (\<lambda>u.
     resolve signature)))"

definition signAndSendTransaction_try :: "env \<Rightarrow> unit io" where
  "signAndSendTransaction_try e =
     await (createTransferTransaction e) (\<lambda>transaction.
     case transaction of
       None \<Rightarrow> resolve ()
     | Some t \<Rightarrow> await (callSignAndSendTransaction e (Legacy t) ''finalized'') (\<lambda>s. resolve ()))"

definition signAndSendTransaction :: "env \<Rightarrow> world \<Rightarrow> world" where
  "signAndSendTransaction e =
     try_catch (signAndSendTransaction_try e)
       (\<lambda>err. effect (addLog (''[error] sendTransaction: '' @ json_error (lib e) err)))"

definition signAndSendTransactionV0_try :: "env \<Rightarrow> unit io" where
  "signAndSendTransactionV0_try e =
     await (createTransferTransactionV0 e) (\<lambda>transactionV0.
     case transactionV0 of
       None \<Rightarrow> resolve ()
     | Some m \<Rightarrow> await (callSignAndSendTransaction e (Versioned m) ''finalized'') (\<lambda>s. resolve ()))"

definition signAndSendTransactionV0 :: "env \<Rightarrow> world \<Rightarrow> world" where
  "signAndSendTransactionV0 e =
     try_catch (signAndSendTransactionV0_try e)
       (\<lambda>err. effect (addLog (''[error] sendTransaction: '' @ json_error (lib e) err)))"

definition devnet_lookup_table :: pubkey where
  "devnet_lookup_table = ''CE7eEn3x97iC1qRZPvpJJk2AuPzwchQ6RHSy6f1U1jxu''"

definition signAndSendTransactionV0WithLookupTable_try :: "env \<Rightarrow> unit io" where
  "signAndSendTransactionV0WithLookupTable_try e =
     await (createTransferTransactionV0WithLookupTable e devnet_lookup_table) (\<lambda>transactionV0.
     case transactionV0 of
       None \<Rightarrow> resolve ()
     | Some m \<Rightarrow> await (callSignAndSendTransaction e (Versioned m) ''finalized'') (\<lambda>s. resolve ()))"

definition signAndSendTransactionV0WithLookupTable :: "env \<Rightarrow> world \<Rightarrow> world" where
  "signAndSendTransactionV0WithLookupTable e =
     try_catch (signAndSendTransactionV0WithLookupTable_try e)
       (\<lambda>err. effect (addLog (''[error] sendTransaction: '' @ json_error (lib e) err)))"

definition signAndSendTransactionRequest_try :: "env \<Rightarrow> unit io" where
  "signAndSendTransactionRequest_try e =
     await (createTransferTransaction e) (\<lambda>transaction.
     case transaction of
       None \<Rightarrow> resolve ()
     | Some t \<Rightarrow>
         await (request_call (provider e)
                  \<lparr>req_method = ''signAndSendTransaction'',
                   req_params = Some (MessageOptionParams
                     (bs58_encode (lib e) (serializeMessage (lib e) t))
                     \<lparr>maxRetries = 3, preflightCommitment = ''confirmed'', skipPreflight = False\<rparr>)\<rparr>)
           (\<lambda>answer.
         await (confirmTransaction_call e (res_signature answer)) (\<lambda>u.
         effect (addLog (''Transaction '' @ res_signature answer @ '' confirmed'')))))"

definition signAndSendTransactionRequest :: "env \<Rightarrow> world \<Rightarrow> world" where
  "signAndSendTransactionRequest e =
     try_catch (signAndSendTransactionRequest_try e)
       (\<lambda>err. effect (addLog (''[error] sendTransaction: '' @ json_error (lib e) err)))"

definition signAndSendSplTokenTransaction_try :: "env \<Rightarrow> unit io" where
  "signAndSendSplTokenTransaction_try e =
     await (createSplTokenTransferTransaction e) (\<lambda>transaction.
     case transaction of
       None \<Rightarrow> resolve ()
     | Some t \<Rightarrow>
         await (effect (addLog (''created tx:'' @ json_payload (lib e) (Legacy t)))) (\<lambda>u.
         await (signAndSendTransaction_call (provider e) (Legacy t)
                  \<lparr>maxRetries = 3, preflightCommitment = ''finalized'', skipPreflight = False\<rparr>)
           (\<lambda>signature.
         await (confirmTransaction_call e signature) (\<lambda>u.
         effect (addLog (''Transaction '' @ signature @ '' confirmed''))))))"

definition signAndSendSplTokenTransaction :: "env \<Rightarrow> world \<Rightarrow> world" where
  "signAndSendSplTokenTransaction e =
     try_catch (signAndSendSplTokenTransaction_try e)
       (\<lambda>err.
          await (read_code_and_message err) (\<lambda>warned.
          effect (addLog (''[error] sendTransaction: '' @ json_error (lib e) err))))"

text \<open>The two sign-and-send handlers of \<^verbatim>\<open>src/src/App.tsx\<close>.\<close>

definition App_signAndSendTransaction_try :: "env \<Rightarrow> unit io" where
  "App_signAndSendTransaction_try e =
     await (createTransferTransaction e) (\<lambda>transaction.
     case transaction of
       None \<Rightarrow> resolve ()
     | Some t \<Rightarrow>
         await (signAndSendTransaction_call (provider e) (Legacy t)
                  \<lparr>maxRetries = 3, preflightCommitment = ''confirmed'', skipPreflight = False\<rparr>)
           (\<lambda>signature.
         await (confirmTransaction_call e signature) (\<lambda>u.
         effect (addLog (''Transaction '' @ signature @ '' confirmed'')))))"

definition App_signAndSendTransaction :: "env \<Rightarrow> world \<Rightarrow> world" where
  "App_signAndSendTransaction e =
     try_catch (App_signAndSendTransaction_try e)
       (\<lambda>err. effect (addLog (''[error] sendTransaction: '' @ json_error (lib e) err)))"

definition App_signAndSendSplTokenTransaction_try :: "env \<Rightarrow> unit io" where
  "App_signAndSendSplTokenTransaction_try e =
     await (App_createSplTokenTransferTransaction e) (\<lambda>transaction.
     case transaction of
       None \<Rightarrow> resolve ()
     | Some t \<Rightarrow>
         await (effect (addLog (''created tx:'' @ json_payload (lib e) t))) (\<lambda>u.
         await (signAndSendTransaction_call (provider e) t
                  \<lparr>maxRetries = 3, preflightCommitment = ''finalized'', skipPreflight = False\<rparr>)
           (\<lambda>signature.
         await (confirmTransaction_call e signature) (\<lambda>u.
         effect (addLog (''Transaction '' @ signature @ '' confirmed''))))))"

definition App_signAndSendSplTokenTransaction :: "env \<Rightarrow> world \<Rightarrow> world" where
  "App_signAndSendSplTokenTransaction e =
     try_catch (App_signAndSendSplTokenTransaction_try e)
       (\<lambda>err.
          await (read_code_and_message err) (\<lambda>warned.
          effect (addLog (''[error] sendTransaction: '' @ json_error (lib e) err))))"

section \<open>Sign-only handlers\<close>

definition signSingleTransaction_try :: "env \<Rightarrow> bool \<Rightarrow> bool \<Rightarrow> unit io" where
  "signSingleTransaction_try e v0 lookupTable =
     await
       (if v0 \<and> lookupTable then
          await (createTransferTransactionV0WithLookupTable e devnet_lookup_table)
            (\<lambda>m. resolve (map_option Versioned m))
        else if v0 then
          await (createTransferTransactionV0 e) (\<lambda>m. resolve (map_option Versioned m))
        else
          await (createTransferTransaction e) (\<lambda>t. resolve (map_option Legacy t)))
       (\<lambda>transaction.
     await (signTransaction_call (provider e) transaction) (\<lambda>tx.
     await (effect (addLog (''signTransaction: '' @ json_signed (lib e) tx))) (\<lambda>u.
     await (sendRawTransaction_call e (serialize (lib e) tx)) (\<lambda>signature.
     effect (addLog (''signature: '' @ json_string (lib e) signature))))))"

definition signSingleTransaction :: "env \<Rightarrow> bool \<Rightarrow> bool \<Rightarrow> world \<Rightarrow> world" where
  "signSingleTransaction e v0 lookupTable =
     try_catch (signSingleTransaction_try e v0 lookupTable)
       (\<lambda>err. effect (addLog (''[error] signSingleTransaction: '' @ json_error (lib e) err)))"

definition App_signSingleTransction_try :: "env \<Rightarrow> unit io" where
  "App_signSingleTransction_try e =
     await (createTransferTransaction e) (\<lambda>transaction.
     await (signTransaction_call (provider e) (map_option Legacy transaction)) (\<lambda>tx.
     await (effect (addLog (''signTransaction: '' @ json_signed (lib e) tx))) (\<lambda>u.
     await (sendRawTransaction_call e (serialize (lib e) tx)) (\<lambda>signature.
     effect (addLog (''signature: '' @ json_string (lib e) signature))))))"

definition App_signSingleTransction :: "env \<Rightarrow> world \<Rightarrow> world" where
  "App_signSingleTransction e =
     try_catch (App_signSingleTransction_try e)
       (\<lambda>err. effect (addLog (''[error] signSingleTransction: '' @ json_error (lib e) err)))"

text \<open>
  The request-style handlers serialize the message of what the builder returned, without
  a check that it returned anything: when it returned nothing, the call of
  \<^verbatim>\<open>serializeMessage\<close> on \<^verbatim>\<open>undefined\<close> throws a \<^verbatim>\<open>TypeError\<close>.
\<close>

definition signSingleTransactionRequest_try :: "env \<Rightarrow> bool \<Rightarrow> unit io" where
  "signSingleTransactionRequest_try e v0 =
     await
       (if v0 then
          await (createTransferTransactionV0 e) (\<lambda>transaction.
          case transaction of
            None \<Rightarrow> reject (Failure FromRuntime (ErrorObject type_error))
          | Some m \<Rightarrow> resolve (bs58_encode (lib e) (serializeMessageV0 (lib e) m)))
        else
          await (createTransferTransaction e) (\<lambda>transaction.
          case transaction of
            None \<Rightarrow> reject (Failure FromRuntime (ErrorObject type_error))
          | Some t \<Rightarrow> resolve (bs58_encode (lib e) (serializeMessage (lib e) t))))
       (\<lambda>message.
     await (request_call (provider e)
              \<lparr>req_method = ''signTransaction'', req_params = Some (MessageParams message)\<rparr>)
       (\<lambda>tx.
     effect (addLog (''signTransaction: '' @ json_result (lib e) tx))))"

definition signSingleTransactionRequest :: "env \<Rightarrow> bool \<Rightarrow> world \<Rightarrow> world" where
  "signSingleTransactionRequest e v0 =
     try_catch (signSingleTransactionRequest_try e v0)
       (\<lambda>err. effect (addLog (''[error] signSingleTransaction: '' @ json_error (lib e) err)))"

definition App_signSingleTransctionRequest_try :: "env \<Rightarrow> unit io" where
  "App_signSingleTransctionRequest_try e =
     await (createTransferTransaction e) (\<lambda>transaction.
     case transaction of
       None \<Rightarrow> reject (Failure FromRuntime (ErrorObject type_error))
     | Some t \<Rightarrow>
         await (request_call (provider e)
                  \<lparr>req_method = ''signTransaction'',
                   req_params = Some (MessageParams
                     (bs58_encode (lib e) (serializeMessage (lib e) t)))\<rparr>)
           (\<lambda>tx.
         await (effect (addLog (''signTransaction: '' @ json_result (lib e) tx))) (\<lambda>u.
         effect (addLog (''signature: '' @ json_string (lib e) (res_signature tx))))))"

definition App_signSingleTransctionRequest :: "env \<Rightarrow> world \<Rightarrow> world" where
  "App_signSingleTransctionRequest e =
     try_catch (App_signSingleTransctionRequest_try e)
       (\<lambda>err. effect (addLog (''[error] signSingleTransction: '' @ json_error (lib e) err)))"

section \<open>Batch signing\<close>

text \<open>
  \<^verbatim>\<open>Promise.all(txns.map(async (tx) => connection.sendRawTransaction(tx.serialize())))\<close>:
  every request is issued, in the order of the list, before any answer is looked at; the
  result is the list of answers, or the first rejection.
\<close>

fun issue_all :: "env \<Rightarrow> signed_tx list \<Rightarrow> world \<Rightarrow> (failure + string) list \<times> world" where
  "issue_all e [] w = ([], w)"
| "issue_all e (tx # txs) w =
     (case sendRawTransaction_call e (serialize (lib e) tx) w of
        (r, w') \<Rightarrow> (case issue_all e txs w' of (rs, w'') \<Rightarrow> (r # rs, w'')))"

fun settle_all :: "(failure + 'a) list \<Rightarrow> failure + 'a list" where
  "settle_all [] = Inr []"
| "settle_all (Inl f # rs) = Inl f"
| "settle_all (Inr x # rs) = (case settle_all rs of Inl f \<Rightarrow> Inl f | Inr xs \<Rightarrow> Inr (x # xs))"

definition sendRawTransaction_all :: "env \<Rightarrow> signed_tx list \<Rightarrow> string list io" where
  "sendRawTransaction_all e txns w = (case issue_all e txns w of (rs, w') \<Rightarrow> (settle_all rs, w'))"

text \<open>The pair of payloads a batch handler builds, by its flags.\<close>

definition build_pair :: "env \<Rightarrow> bool \<Rightarrow> bool \<Rightarrow> (payload option \<times> payload option) io" where
  "build_pair e v0 lookupTable =
     (if v0 \<and> lookupTable then
        await (promise_all3 (createTransferTransactionV0WithLookupTable_start e devnet_lookup_table)
                 (createTransferTransactionV0WithLookupTable_middle e)
                 createTransferTransactionV0WithLookupTable_finish)
          (\<lambda>(a, b). resolve (map_option Versioned a, map_option Versioned b))
      else if v0 then
        await (promise_all2 (createTransferTransactionV0_start e) createTransferTransactionV0_finish)
          (\<lambda>(a, b). resolve (map_option Versioned a, map_option Versioned b))
      else
        await (promise_all2 (createTransferTransaction_start e) createTransferTransaction_finish)
          (\<lambda>(a, b). resolve (map_option Legacy a, map_option Legacy b)))"

definition sign_and_send_batch :: "env \<Rightarrow> bool \<Rightarrow> payload option \<times> payload option \<Rightarrow> unit io" where
  "sign_and_send_batch e onlyFirst pair =
     (case pair of
        (Some transaction1, Some transaction2) \<Rightarrow>
          await (signAllTransactions_call (provider e)
                   (if onlyFirst then [transaction1] else [transaction1, transaction2]))
            (\<lambda>txns.
          await (effect (addLog (''signMultipleTransactions txns: '' @ json_signed_list (lib e) txns)))
            (\<lambda>u.
          await (sendRawTransaction_all e txns) (\<lambda>sentTxs.
          effect (addLog (''sent raw txns: '' @ json_string_list (lib e) sentTxs)))))
      | _ \<Rightarrow> resolve ())"

definition signMultipleTransactions_try :: "env \<Rightarrow> bool \<Rightarrow> bool \<Rightarrow> bool \<Rightarrow> unit io" where
  "signMultipleTransactions_try e onlyFirst v0 lookupTable =
     await (build_pair e v0 lookupTable) (sign_and_send_batch e onlyFirst)"

definition signMultipleTransactions :: "env \<Rightarrow> bool \<Rightarrow> bool \<Rightarrow> bool \<Rightarrow> world \<Rightarrow> world" where
  "signMultipleTransactions e onlyFirst v0 lookupTable =
     try_catch (signMultipleTransactions_try e onlyFirst v0 lookupTable)
       (\<lambda>err. effect (addLog (''[error] signMultipleTransactions: '' @ json_error (lib e) err)))"

text \<open>\<^verbatim>\<open>signMultipleTransactions(onlyFirst)\<close> of \<^verbatim>\<open>src/src/App.tsx\<close>: legacy payloads only.\<close>

definition App_signMultipleTransactions_try :: "env \<Rightarrow> bool \<Rightarrow> unit io" where
  "App_signMultipleTransactions_try e onlyFirst =
     await (promise_all2 (createTransferTransaction_start e) createTransferTransaction_finish)
       (\<lambda>(transaction1, transaction2).
          sign_and_send_batch e onlyFirst
            (map_option Legacy transaction1, map_option Legacy transaction2))"

definition App_signMultipleTransactions :: "env \<Rightarrow> bool \<Rightarrow> world \<Rightarrow> world" where
  "App_signMultipleTransactions e onlyFirst =
     try_catch (App_signMultipleTransactions_try e onlyFirst)
       (\<lambda>err. effect (addLog (''[error] signMultipleTransactions: '' @ json_error (lib e) err)))"

text \<open>The request-style batch handler: the messages are serialized once both payloads exist.\<close>

definition settled :: "failure + 'a \<Rightarrow> 'a io" where
  "settled r w = (r, w)"

fun message_of :: "sdk \<Rightarrow> payload \<Rightarrow> failure + string" where
  "message_of s (Legacy t) = Inr (bs58_encode s (serializeMessage s t))"
| "message_of s (Versioned m) = Inr (bs58_encode s (serializeMessageV0 s m))"
| "message_of s (BareInstruction i b) = Inl (Failure FromRuntime (ErrorObject type_error))"

definition request_batch :: "env \<Rightarrow> bool \<Rightarrow> payload option \<times> payload option \<Rightarrow> unit io" where
  "request_batch e onlyFirst pair =
     (case pair of
        (Some transaction1, Some transaction2) \<Rightarrow>
          await
            (if onlyFirst then
               await (settled (message_of (lib e) transaction1)) (\<lambda>message. resolve [message])
             else
               await (settled (message_of (lib e) transaction1)) (\<lambda>message1.
               await (settled (message_of (lib e) transaction2)) (\<lambda>message2.
               resolve [message1, message2])))
            (\<lambda>messages.
          await (request_call (provider e)
                   \<lparr>req_method = ''signAllTransactions'',
                    req_params = Some (MessageListParams messages)\<rparr>)
            (\<lambda>txns.
          effect (addLog (''signMultipleTransactions txns: '' @ json_result (lib e) txns))))
      | _ \<Rightarrow> resolve ())"

definition signMultipleTransactionsRequest_try :: "env \<Rightarrow> bool \<Rightarrow> bool \<Rightarrow> unit io" where
  "signMultipleTransactionsRequest_try e onlyFirst v0 =
     await (build_pair e v0 False) (request_batch e onlyFirst)"

definition signMultipleTransactionsRequest :: "env \<Rightarrow> bool \<Rightarrow> bool \<Rightarrow> world \<Rightarrow> world" where
  "signMultipleTransactionsRequest e onlyFirst v0 =
     try_catch (signMultipleTransactionsRequest_try e onlyFirst v0)
       (\<lambda>err. effect (addLog (''[error] signMultipleTransactions: '' @ json_error (lib e) err)))"

section \<open>Message signing and the connect and disconnect buttons\<close>

definition signMessage_try :: "env \<Rightarrow> string \<Rightarrow> bool \<Rightarrow> unit io" where
  "signMessage_try e message useHex =
     (let d = utf8_encode (lib e) message in
        await (if \<not> useHex then signMessage_call (provider e) d None
               else signMessage_call (provider e) d (Some ''hex''))
          (\<lambda>res. effect (addLog (''Message signed '' @ res))))"

definition signMessage :: "env \<Rightarrow> string \<Rightarrow> bool \<Rightarrow> world \<Rightarrow> world" where
  "signMessage e message useHex =
     try_catch (signMessage_try e message useHex)
       (\<lambda>err. effect (addLog (''[error] signMessage: '' @ json_error (lib e) err)))"

definition App_signMessage_try :: "env \<Rightarrow> string \<Rightarrow> unit io" where
  "App_signMessage_try e message =
     (let d = utf8_encode (lib e) message in
        await (signMessage_call (provider e) d None)
          (\<lambda>res. effect (addLog (''Message signed '' @ res))))"

definition App_signMessage :: "env \<Rightarrow> string \<Rightarrow> world \<Rightarrow> world" where
  "App_signMessage e message =
     try_catch (App_signMessage_try e message)
       (\<lambda>err. effect (addLog (''[error] signMessage: '' @ json_error (lib e) err)))"

definition signMessageRequest_try :: "env \<Rightarrow> string \<Rightarrow> bool \<Rightarrow> unit io" where
  "signMessageRequest_try e message useHex =
     (let d = utf8_encode (lib e) message in
        await (if \<not> useHex then
                 request_call (provider e)
                   \<lparr>req_method = ''signMessage'', req_params = Some (SignMessageParams d None)\<rparr>
               else
                 request_call (provider e)
                   \<lparr>req_method = ''signMessage'',
                    req_params = Some (SignMessageParams d (Some ''hex''))\<rparr>)
          (\<lambda>res. effect (addLog (''Message signed '' @ json_result (lib e) res))))"

definition signMessageRequest :: "env \<Rightarrow> string \<Rightarrow> bool \<Rightarrow> world \<Rightarrow> world" where
  "signMessageRequest e message useHex =
     try_catch (signMessageRequest_try e message useHex)
       (\<lambda>err. effect (addLog (''[error] signMessage: '' @ json_error (lib e) err)))"

text \<open>The \<^verbatim>\<open>onClick\<close> handlers written inline in the buttons, named after the button.\<close>

definition onClick_Disconnect_try :: "env \<Rightarrow> unit io" where
  "onClick_Disconnect_try e = disconnect_call (provider e)"

definition onClick_Disconnect :: "env \<Rightarrow> world \<Rightarrow> world" where
  "onClick_Disconnect e =
     try_catch (onClick_Disconnect_try e)
       (\<lambda>err. effect (addLog (''[error] disconnect: '' @ json_error (lib e) err)))"

definition onClick_DisconnectRequest_try :: "env \<Rightarrow> unit io" where
  "onClick_DisconnectRequest_try e =
     await (request_call (provider e) \<lparr>req_method = ''disconnect'', req_params = None\<rparr>)
       (\<lambda>r. resolve ())"

definition onClick_DisconnectRequest :: "env \<Rightarrow> world \<Rightarrow> world" where
  "onClick_DisconnectRequest e =
     try_catch (onClick_DisconnectRequest_try e)
       (\<lambda>err. effect (addLog (''[error] disconnect: '' @ json_error (lib e) err)))"

definition onClick_Connect_try :: "env \<Rightarrow> unit io" where
  "onClick_Connect_try e = await (connect_call (provider e) None) (\<lambda>r. resolve ())"

definition onClick_Connect :: "env \<Rightarrow> world \<Rightarrow> world" where
  "onClick_Connect e =
     try_catch (onClick_Connect_try e)
       (\<lambda>err. effect (addLog (''[error] connect: '' @ json_error (lib e) err)))"

definition onClick_ConnectRequest_try :: "env \<Rightarrow> unit io" where
  "onClick_ConnectRequest_try e =
     await (request_call (provider e) \<lparr>req_method = ''connect'', req_params = None\<rparr>)
       (\<lambda>r. resolve ())"

definition onClick_ConnectRequest :: "env \<Rightarrow> world \<Rightarrow> world" where
  "onClick_ConnectRequest e =
     try_catch (onClick_ConnectRequest_try e)
       (\<lambda>err. effect (addLog (''[error] connect: '' @ json_error (lib e) err)))"

definition onClick_EagerlyConnect_try :: "env \<Rightarrow> unit io" where
  "onClick_EagerlyConnect_try e = await (connect_call (provider e) (Some True)) (\<lambda>r. resolve ())"

definition onClick_EagerlyConnect :: "env \<Rightarrow> world \<Rightarrow> world" where
  "onClick_EagerlyConnect e =
     try_catch (onClick_EagerlyConnect_try e)
       (\<lambda>err. effect (addLog (''[error] eagerly connect: '' @ json_error (lib e) err)))"

definition onClick_EagerlyConnectRequest_try :: "env \<Rightarrow> unit io" where
  "onClick_EagerlyConnectRequest_try e =
     await (request_call (provider e)
              \<lparr>req_method = ''connect'', req_params = Some (ConnectParams True)\<rparr>)
       (\<lambda>r. resolve ())"

definition onClick_EagerlyConnectRequest :: "env \<Rightarrow> world \<Rightarrow> world" where
  "onClick_EagerlyConnectRequest e =
     try_catch (onClick_EagerlyConnectRequest_try e)
       (\<lambda>err. effect (addLog (''[error] eagerly connect: '' @ json_error (lib e) err)))"

section \<open>All operations of the page\<close>

text \<open>The click handlers of both files, with the arguments the buttons can pass.\<close>

datatype handler =
    Click_signAndSendTransaction
  | Click_signAndSendTransactionV0
  | Click_signAndSendTransactionV0WithLookupTable
  | Click_signAndSendTransactionRequest
  | Click_signAndSendSplTokenTransaction
  | Click_signSingleTransaction bool bool
  | Click_signSingleTransactionRequest bool
  | Click_signMultipleTransactions bool bool bool
  | Click_signMultipleTransactionsRequest bool bool
  | Click_signMessage string bool
  | Click_signMessageRequest string bool
  | Click_Disconnect
  | Click_DisconnectRequest
  | Click_Connect
  | Click_ConnectRequest
  | Click_EagerlyConnect
  | Click_EagerlyConnectRequest
  | Click_App_signAndSendTransaction
  | Click_App_signAndSendSplTokenTransaction
  | Click_App_signSingleTransction
  | Click_App_signSingleTransctionRequest
  | Click_App_signMultipleTransactions bool
  | Click_App_signMessage string

fun run_handler :: "env \<Rightarrow> handler \<Rightarrow> world \<Rightarrow> world" where
  "run_handler e Click_signAndSendTransaction = signAndSendTransaction e"
| "run_handler e Click_signAndSendTransactionV0 = signAndSendTransactionV0 e"
| "run_handler e Click_signAndSendTransactionV0WithLookupTable =
     signAndSendTransactionV0WithLookupTable e"
| "run_handler e Click_signAndSendTransactionRequest = signAndSendTransactionRequest e"
| "run_handler e Click_signAndSendSplTokenTransaction = signAndSendSplTokenTransaction e"
| "run_handler e (Click_signSingleTransaction v0 lookupTable) =
     signSingleTransaction e v0 lookupTable"
| "run_handler e (Click_signSingleTransactionRequest v0) = signSingleTransactionRequest e v0"
| "run_handler e (Click_signMultipleTransactions onlyFirst v0 lookupTable) =
     signMultipleTransactions e onlyFirst v0 lookupTable"
| "run_handler e (Click_signMultipleTransactionsRequest onlyFirst v0) =
     signMultipleTransactionsRequest e onlyFirst v0"
| "run_handler e (Click_signMessage message useHex) = signMessage e message useHex"
| "run_handler e (Click_signMessageRequest message useHex) = signMessageRequest e message useHex"
| "run_handler e Click_Disconnect = onClick_Disconnect e"
| "run_handler e Click_DisconnectRequest = onClick_DisconnectRequest e"
| "run_handler e Click_Connect = onClick_Connect e"
| "run_handler e Click_ConnectRequest = onClick_ConnectRequest e"
| "run_handler e Click_EagerlyConnect = onClick_EagerlyConnect e"
| "run_handler e Click_EagerlyConnectRequest = onClick_EagerlyConnectRequest e"
| "run_handler e Click_App_signAndSendTransaction = App_signAndSendTransaction e"
| "run_handler e Click_App_signAndSendSplTokenTransaction = App_signAndSendSplTokenTransaction e"
| "run_handler e Click_App_signSingleTransction = App_signSingleTransction e"
| "run_handler e Click_App_signSingleTransctionRequest = App_signSingleTransctionRequest e"
| "run_handler e (Click_App_signMultipleTransactions onlyFirst) =
     App_signMultipleTransactions e onlyFirst"
| "run_handler e (Click_App_signMessage message) = App_signMessage e message"

text \<open>The body of each handler's \<^verbatim>\<open>try\<close> block, and the label its \<^verbatim>\<open>catch\<close> block logs.\<close>

fun handler_try :: "env \<Rightarrow> handler \<Rightarrow> unit io" where
  "handler_try e Click_signAndSendTransaction = signAndSendTransaction_try e"
| "handler_try e Click_signAndSendTransactionV0 = signAndSendTransactionV0_try e"
| "handler_try e Click_signAndSendTransactionV0WithLookupTable =
     signAndSendTransactionV0WithLookupTable_try e"
| "handler_try e Click_signAndSendTransactionRequest = signAndSendTransactionRequest_try e"
| "handler_try e Click_signAndSendSplTokenTransaction = signAndSendSplTokenTransaction_try e"
| "handler_try e (Click_signSingleTransaction v0 lookupTable) =
     signSingleTransaction_try e v0 lookupTable"
| "handler_try e (Click_signSingleTransactionRequest v0) = signSingleTransactionRequest_try e v0"
| "handler_try e (Click_signMultipleTransactions onlyFirst v0 lookupTable) =
     signMultipleTransactions_try e onlyFirst v0 lookupTable"
| "handler_try e (Click_signMultipleTransactionsRequest onlyFirst v0) =
     signMultipleTransactionsRequest_try e onlyFirst v0"
| "handler_try e (Click_signMessage message useHex) = signMessage_try e message useHex"
| "handler_try e (Click_signMessageRequest message useHex) =
     signMessageRequest_try e message useHex"
| "handler_try e Click_Disconnect = onClick_Disconnect_try e"
| "handler_try e Click_DisconnectRequest = onClick_DisconnectRequest_try e"
| "handler_try e Click_Connect = onClick_Connect_try e"
| "handler_try e Click_ConnectRequest = onClick_ConnectRequest_try e"
| "handler_try e Click_EagerlyConnect = onClick_EagerlyConnect_try e"
| "handler_try e Click_EagerlyConnectRequest = onClick_EagerlyConnectRequest_try e"
| "handler_try e Click_App_signAndSendTransaction = App_signAndSendTransaction_try e"
| "handler_try e Click_App_signAndSendSplTokenTransaction =
     App_signAndSendSplTokenTransaction_try e"
| "handler_try e Click_App_signSingleTransction = App_signSingleTransction_try e"
| "handler_try e Click_App_signSingleTransctionRequest = App_signSingleTransctionRequest_try e"
| "handler_try e (Click_App_signMultipleTransactions onlyFirst) =
     App_signMultipleTransactions_try e onlyFirst"
| "handler_try e (Click_App_signMessage message) = App_signMessage_try e message"

fun error_label :: "handler \<Rightarrow> string" where
  "error_label Click_signAndSendTransaction = ''sendTransaction''"
| "error_label Click_signAndSendTransactionV0 = ''sendTransaction''"
| "error_label Click_signAndSendTransactionV0WithLookupTable = ''sendTransaction''"
| "error_label Click_signAndSendTransactionRequest = ''sendTransaction''"
| "error_label Click_signAndSendSplTokenTransaction = ''sendTransaction''"
| "error_label (Click_signSingleTransaction v0 lookupTable) = ''signSingleTransaction''"
| "error_label (Click_signSingleTransactionRequest v0) = ''signSingleTransaction''"
| "error_label (Click_signMultipleTransactions onlyFirst v0 lookupTable) =
     ''signMultipleTransactions''"
| "error_label (Click_signMultipleTransactionsRequest onlyFirst v0) = ''signMultipleTransactions''"
| "error_label (Click_signMessage message useHex) = ''signMessage''"
| "error_label (Click_signMessageRequest message useHex) = ''signMessage''"
| "error_label Click_Disconnect = ''disconnect''"
| "error_label Click_DisconnectRequest = ''disconnect''"
| "error_label Click_Connect = ''connect''"
| "error_label Click_ConnectRequest = ''connect''"
| "error_label Click_EagerlyConnect = ''eagerly connect''"
| "error_label Click_EagerlyConnectRequest = ''eagerly connect''"
| "error_label Click_App_signAndSendTransaction = ''sendTransaction''"
| "error_label Click_App_signAndSendSplTokenTransaction = ''sendTransaction''"
| "error_label Click_App_signSingleTransction = ''signSingleTransction''"
| "error_label Click_App_signSingleTransctionRequest = ''signSingleTransction''"
| "error_label (Click_App_signMultipleTransactions onlyFirst) = ''signMultipleTransactions''"
| "error_label (Click_App_signMessage message) = ''signMessage''"

text \<open>
  Everything that can happen to the page: the first render (the cluster effect logs once,
  then the provider effect runs), a click, an event pushed by the wallet (to the page of
  either file), a change of the cluster selector, and the cleanup on unmount.
\<close>

definition first_render :: "env \<Rightarrow> world \<Rightarrow> world" where
  "first_render e w =
     useEffect_provider (Some (provider e))
       (addLog (''[cluster changed] '' @ cluster_name (cluster w)) w)"

datatype operation =
    FirstRender
  | Click handler
  | WalletEvent event
  | App_WalletEvent event
  | SelectCluster cluster
  | Unmount

fun run :: "env \<Rightarrow> operation \<Rightarrow> world \<Rightarrow> world" where
  "run e FirstRender = first_render e"
| "run e (Click h) = run_handler e h"
| "run e (WalletEvent ev) = handle_event (provider e) ev"
| "run e (App_WalletEvent ev) = App_handle_event (provider e) ev"
| "run e (SelectCluster c) = change_cluster (lib e) c"
| "run e Unmount = useEffect_provider_cleanup (provider e)"

text \<open>The session invariant of the specification, and what a call sends as options.\<close>

definition session_consistent :: "world \<Rightarrow> bool" where
  "session_consistent w \<longleftrightarrow> (publicKey w \<noteq> None) = connected w"

fun sent_options :: "call \<Rightarrow> send_options option" where
  "sent_options (Provider (SignAndSendTransaction t opts)) = Some opts"
| "sent_options (Provider (Request r)) =
     (case req_params r of Some (MessageOptionParams m opts) \<Rightarrow> Some opts | _ \<Rightarrow> None)"
| "sent_options c = None"

text \<open>
  Which wallet calls of a trace were rejected. The answer of the wallet is a function of
  the call and of its position in the trace, so it can be read off the trace: the
  rejection with which the wallet answered the call at position \<open>i\<close>, if that call is a
  wallet call and was rejected.
\<close>

fun answer_rejected :: "wallet \<Rightarrow> nat \<Rightarrow> provider_call \<Rightarrow> rejection option" where
  "answer_rejected p n (Connect opts) =
     (case wallet_connect p n opts of Inl r \<Rightarrow> Some r | Inr x \<Rightarrow> None)"
| "answer_rejected p n Disconnect =
     (case wallet_disconnect p n of Inl r \<Rightarrow> Some r | Inr x \<Rightarrow> None)"
| "answer_rejected p n (SignTransaction t) =
     (case wallet_signTransaction p n t of Inl r \<Rightarrow> Some r | Inr x \<Rightarrow> None)"
| "answer_rejected p n (SignAllTransactions ts) =
     (case wallet_signAllTransactions p n ts of Inl r \<Rightarrow> Some r | Inr x \<Rightarrow> None)"
| "answer_rejected p n (SignMessage d display) =
     (case wallet_signMessage p n d display of Inl r \<Rightarrow> Some r | Inr x \<Rightarrow> None)"
| "answer_rejected p n (SignAndSendTransaction t opts) =
     (case wallet_signAndSendTransaction p n t opts of Inl r \<Rightarrow> Some r | Inr x \<Rightarrow> None)"
| "answer_rejected p n (Request r) =
     (case wallet_request p n r of Inl r \<Rightarrow> Some r | Inr x \<Rightarrow> None)"

definition rejected_at :: "wallet \<Rightarrow> call list \<Rightarrow> nat \<Rightarrow> rejection option" where
  "rejected_at p tr i =
     (if i < length tr then
        (case tr ! i of Provider c \<Rightarrow> answer_rejected p i c | _ \<Rightarrow> None)
      else None)"

text \<open>The handlers whose \<^verbatim>\<open>catch\<close> block reads \<^verbatim>\<open>err.code\<close> and \<^verbatim>\<open>err.message\<close> first.\<close>

fun reads_error_fields :: "handler \<Rightarrow> bool" where
  "reads_error_fields Click_signAndSendSplTokenTransaction = True"
| "reads_error_fields Click_App_signAndSendSplTokenTransaction = True"
| "reads_error_fields h = False"

text \<open>
  Two properties of an asynchronous body, for the proofs. A body is \<open>quiet\<close> when it makes
  no wallet call. A body \<open>stops_at_rejection\<close> when a wallet call it makes and the wallet
  rejects is the last call it makes, and the body ends rejected with that very value.
\<close>

fun is_provider_call :: "call \<Rightarrow> bool" where
  "is_provider_call (Provider c) = True"
| "is_provider_call c = False"

definition quiet_step :: "world \<Rightarrow> world \<Rightarrow> bool" where
  "quiet_step w w' \<longleftrightarrow> (\<exists>cs. trace w' = trace w @ cs \<and> filter is_provider_call cs = [])"

definition quiet :: "'a io \<Rightarrow> bool" where
  "quiet m \<longleftrightarrow> (\<forall>w. quiet_step w (snd (m w)))"


text \<open>
  What the log and the rest of the state may do during a click handler: lines are added
  at the end through \<open>addLog\<close>, calls are added to the trace, nothing else changes.
\<close>

definition grows :: "world \<Rightarrow> world \<Rightarrow> bool" where
  "grows w w' \<longleftrightarrow>
     (\<exists>ms. logs w' = logs w @ map (\<lambda>m. ''> '' @ m) ms) \<and>
     (\<exists>cs. trace w' = trace w @ cs) \<and>
     publicKey w' = publicKey w \<and> connected w' = connected w \<and>
     cluster w' = cluster w \<and> connection w' = connection w"

definition steady :: "'a io \<Rightarrow> bool" where
  "steady m \<longleftrightarrow> (\<forall>w. grows w (snd (m w)))"

section \<open>The serialized size of a version-0 message\<close>

text \<open>
  Modelled from the spec: the chain library's \<^verbatim>\<open>compileToV0Message\<close> and \<^verbatim>\<open>serialize\<close> are
  not part of the repository. The specification describes an address lookup table as an
  indirection table that lets a transaction reference accounts by short index instead of
  full identifier; the definitions below spell that out as the library's message format
  does, as far as the size of the serialized message goes.

  Compiling collects the accounts of the message in the order they are first met: the
  payer (signer, writable), then for each instruction its program (invoked) and its
  accounts, whose signer and writable flags accumulate. For each table handed to the
  compiler, the accounts that are neither signers nor invoked and that the table holds
  are taken out of the message and referenced by their index in the table: writable ones
  first, then read-only ones; a table that holds none of them is not referenced. What is
  left are the static keys.

  The serialized message is: one byte for the version, three for the header, the static
  keys (a length, 32 bytes each), the block hash (32 bytes), the instructions (a length;
  for each, one byte for the program index, a length and one byte per account index, a
  length and the data), and the table references (a length; for each, the 32-byte address
  of the table, a length and one byte per writable index, a length and one byte per
  read-only index). A length takes one byte below 128, two below 16384, else three.
  A table holds at most 256 addresses, so that an index fits a byte; the library's check
  of that bound is not modelled.
\<close>

definition system_program :: pubkey where
  "system_program = ''11111111111111111111111111111111''"

definition token_program :: pubkey where
  "token_program = ''TokenkegQfeZyiNwAJbNbGKPFXCWuBvf9Ss623VQ5DA''"

record account_meta =
  meta_pubkey :: pubkey
  meta_isSigner :: bool
  meta_isWritable :: bool

fun programId :: "instruction \<Rightarrow> pubkey" where
  "programId (SystemTransfer fromPubkey toPubkey lamports) = system_program"
| "programId (TokenTransfer source destination owner amount) = token_program"

fun instruction_keys :: "instruction \<Rightarrow> account_meta list" where
  "instruction_keys (SystemTransfer fromPubkey toPubkey lamports) =
     [\<lparr>meta_pubkey = fromPubkey, meta_isSigner = True, meta_isWritable = True\<rparr>,
      \<lparr>meta_pubkey = toPubkey, meta_isSigner = False, meta_isWritable = True\<rparr>]"
| "instruction_keys (TokenTransfer source destination owner amount) =
     [\<lparr>meta_pubkey = source, meta_isSigner = False, meta_isWritable = True\<rparr>,
      \<lparr>meta_pubkey = destination, meta_isSigner = False, meta_isWritable = True\<rparr>,
      \<lparr>meta_pubkey = owner, meta_isSigner = True, meta_isWritable = False\<rparr>]"

fun data_length :: "instruction \<Rightarrow> nat" where
  "data_length (SystemTransfer fromPubkey toPubkey lamports) = 12"
| "data_length (TokenTransfer source destination owner amount) = 9"

record key_meta =
  key_pubkey :: pubkey
  isSigner :: bool
  isWritable :: bool
  isInvoked :: bool

fun update_meta :: "pubkey \<Rightarrow> (key_meta \<Rightarrow> key_meta) \<Rightarrow> key_meta list \<Rightarrow> key_meta list" where
  "update_meta k f [] =
     [f \<lparr>key_pubkey = k, isSigner = False, isWritable = False, isInvoked = False\<rparr>]"
| "update_meta k f (m # ms) =
     (if key_pubkey m = k then f m # ms else m # update_meta k f ms)"

definition add_account :: "key_meta list \<Rightarrow> account_meta \<Rightarrow> key_meta list" where
  "add_account ms a =
     update_meta (meta_pubkey a)
       (\<lambda>m. m\<lparr>isSigner := isSigner m \<or> meta_isSigner a,
               isWritable := isWritable m \<or> meta_isWritable a\<rparr>) ms"

definition add_instruction :: "key_meta list \<Rightarrow> instruction \<Rightarrow> key_meta list" where
  "add_instruction ms ix =
     foldl add_account (update_meta (programId ix) (\<lambda>m. m\<lparr>isInvoked := True\<rparr>) ms)
       (instruction_keys ix)"

definition compile_keys :: "pubkey \<Rightarrow> instruction list \<Rightarrow> key_meta list" where
  "compile_keys payer ixs =
     foldl add_instruction
       (update_meta payer (\<lambda>m. m\<lparr>isSigner := True, isWritable := True\<rparr>) []) ixs"

definition found_in_table :: "lookup_table \<Rightarrow> key_meta \<Rightarrow> bool" where
  "found_in_table t m \<longleftrightarrow>
     \<not> isSigner m \<and> \<not> isInvoked m \<and> key_pubkey m \<in> set (table_addresses t)"

text \<open>
  Modelled from the spec: the references to the tables, each as the number of its writable
  and of its read-only indexes, and the keys that stay in the message.
\<close>

fun extract_table_lookups ::
  "lookup_table list \<Rightarrow> key_meta list \<Rightarrow> (nat \<times> nat) list \<times> key_meta list" where
  "extract_table_lookups [] ms = ([], ms)"
| "extract_table_lookups (t # ts) ms =
     (let drained = filter (found_in_table t) ms;
          writable = length (filter isWritable drained);
          readonly = length (filter (\<lambda>m. \<not> isWritable m) drained)
      in if drained = [] then extract_table_lookups ts ms
         else (case extract_table_lookups ts (filter (\<lambda>m. \<not> found_in_table t m) ms) of
                 (lookups, static) \<Rightarrow> ((writable, readonly) # lookups, static)))"

definition shortvec_length :: "nat \<Rightarrow> nat" where
  "shortvec_length n = (if n < 128 then 1 else if n < 16384 then 2 else 3)"

definition instruction_size :: "instruction \<Rightarrow> nat" where
  "instruction_size ix =
     1 + shortvec_length (length (instruction_keys ix)) + length (instruction_keys ix)
       + shortvec_length (data_length ix) + data_length ix"

definition lookup_size :: "nat \<times> nat \<Rightarrow> nat" where
  "lookup_size l =
     32 + shortvec_length (fst l) + fst l + shortvec_length (snd l) + snd l"

definition message_size :: "message_v0 \<Rightarrow> nat" where
  "message_size m =
     (case extract_table_lookups (v0_tables m)
             (compile_keys (payerKey m) (v0_instructions m)) of
        (lookups, static) \<Rightarrow>
          1 + 3 + shortvec_length (length static) + 32 * length static + 32
            + shortvec_length (length (v0_instructions m))
            + sum_list (map instruction_size (v0_instructions m))
            + shortvec_length (length lookups) + sum_list (map lookup_size lookups))"

section \<open>Concrete environments\<close>

text \<open>
  Environments on which the theorems below are run: a library whose functions are simple
  stand-ins, an RPC node that answers every request (with a different block hash for the
  first request than for later ones), a wallet that is connected as \<open>Alice\<close> and signs
  what it is given, and variations of that wallet.
\<close>

fun commas :: "string list \<Rightarrow> string" where
  "commas [] = []"
| "commas [x] = x"
| "commas (x # y # ys) = x @ '','' @ commas (y # ys)"

definition sdk0 :: sdk where
  "sdk0 =
     \<lparr>clusterApiUrl = (\<lambda>c. ''https://api.'' @ cluster_name c @ ''.solana.com''),
      serializeMessage = (\<lambda>t. [length (instructions t)]),
      serializeMessageV0 = (\<lambda>m. [128, length (v0_instructions m)]),
      serialize = (\<lambda>tx. [length (signed_by tx)]),
      bs58_encode = map (\<lambda>n. if n = 0 then CHR ''1'' else CHR ''2''),
      utf8_encode = map of_char,
      getAssociatedTokenAddress = (\<lambda>mint owner. Inr (''ata-'' @ owner)),
      json_error =
        (\<lambda>err. case err of
                  Nullish \<Rightarrow> ''undefined''
                | ErrorObject x \<Rightarrow> ''{code:'' @ err_code x @ ''}''),
      json_payload = (\<lambda>p. ''{}''),
      json_signed = (\<lambda>tx. ''{}''),
      json_signed_list = (\<lambda>txs. ''['' @ commas (map (\<lambda>tx. ''{}'') txs) @ '']''),
      json_string = (\<lambda>s. s),
      json_string_list = (\<lambda>xs. ''['' @ commas xs @ '']''),
      json_result = res_rest\<rparr>"

definition rpc0 :: rpc where
  "rpc0 =
     \<lparr>rpc_getRecentBlockhash = (\<lambda>n c l. Inr (if n = 0 then ''hashA'' else ''hashB'')),
      rpc_getLatestBlockhash = (\<lambda>n c. Inr (if n = 0 then ''hashA'' else ''hashB'')),
      rpc_getAddressLookupTable =
        (\<lambda>n c a. Inr (Some \<lparr>table_key = a,
                               table_addresses = [''Dev'', kTestToPublicKeyInTableLookup]\<rparr>)),
      rpc_confirmTransaction = (\<lambda>n c s. Inr ()),
      rpc_sendRawTransaction = (\<lambda>n c raw. Inr ''sent'')\<rparr>"

definition user_rejected :: js_error where
  "user_rejected = \<lparr>err_code = ''4001'', err_message = ''User rejected the request.''\<rparr>"

definition wallet0 :: wallet where
  "wallet0 =
     \<lparr>isPhantom = True,
      wallet_publicKey = Some ''Alice'',
      wallet_connect = (\<lambda>n opts. Inr ''Alice''),
      wallet_disconnect = (\<lambda>n. Inr ()),
      wallet_signTransaction =
        (\<lambda>n t. case t of
                  None \<Rightarrow> Inl (ErrorObject user_rejected)
                | Some p \<Rightarrow> Inr \<lparr>signed_payload = p, signed_by = ''Alice''\<rparr>),
      wallet_signAllTransactions =
        (\<lambda>n ts. Inr (map (\<lambda>p. \<lparr>signed_payload = p, signed_by = ''Alice''\<rparr>) ts)),
      wallet_signMessage = (\<lambda>n d display. Inr ''{}''),
      wallet_signAndSendTransaction = (\<lambda>n t opts. Inr ''sig1''),
      wallet_request = (\<lambda>n r. Inr \<lparr>res_signature = ''sig1'', res_rest = ''{}''\<rparr>)\<rparr>"

definition env0 :: env where
  "env0 = \<lparr>provider = wallet0, client = rpc0, lib = sdk0\<rparr>"


text \<open>The same wallet with no account selected: \<^verbatim>\<open>provider.publicKey\<close> is null.\<close>

definition wallet_locked :: wallet where
  "wallet_locked = wallet0\<lparr>wallet_publicKey := None\<rparr>"


definition env_locked :: env where
  "env_locked = env0\<lparr>provider := wallet_locked\<rparr>"

text \<open>A wallet that rejects sign-and-send with \<^verbatim>\<open>undefined\<close>.\<close>

definition wallet_rejecting_undefined :: wallet where
  "wallet_rejecting_undefined =
     wallet0\<lparr>wallet_signAndSendTransaction := (\<lambda>n t opts. Inl Nullish)\<rparr>"

definition env_rejecting_undefined :: env where
  "env_rejecting_undefined = env0\<lparr>provider := wallet_rejecting_undefined\<rparr>"

text \<open>A wallet whose batch signing answers with an empty list.\<close>

definition wallet_empty_batch :: wallet where
  "wallet_empty_batch = wallet0\<lparr>wallet_signAllTransactions := (\<lambda>n ts. Inr [])\<rparr>"

definition env_empty_batch :: env where
  "env_empty_batch = env0\<lparr>provider := wallet_empty_batch\<rparr>"

text \<open>The values these environments produce.\<close>

definition devnet :: connection where
  "devnet = Connection ''https://api.devnet.solana.com''"

definition transfer_A :: transaction where
  "transfer_A =
     \<lparr>instructions = [SystemTransfer ''Alice'' ''Alice'' 100], feePayer = Some ''Alice'',
      recentBlockhash = Some ''hashA''\<rparr>"

definition transfer_B :: transaction where
  "transfer_B =
     \<lparr>instructions = [SystemTransfer ''Alice'' ''Alice'' 100], feePayer = Some ''Alice'',
      recentBlockhash = Some ''hashB''\<rparr>"

definition table0 :: lookup_table where
  "table0 =
     \<lparr>table_key = devnet_lookup_table,
      table_addresses = [''Dev'', kTestToPublicKeyInTableLookup]\<rparr>"

definition message_with_table :: message_v0 where
  "message_with_table =
     \<lparr>payerKey = ''Alice'', v0_recentBlockhash = ''hashB'',
      v0_instructions = [SystemTransfer ''Alice'' kTestToPublicKeyInTableLookup 100],
      v0_tables = [table0]\<rparr>"

definition message_self :: message_v0 where
  "message_self =
     \<lparr>payerKey = ''Alice'', v0_recentBlockhash = ''hashA'',
      v0_instructions = [SystemTransfer ''Alice'' ''Alice'' 100], v0_tables = []\<rparr>"

text \<open>Host environments: no wallet, a nullish \<^verbatim>\<open>solana\<close> property, the wallet \<open>wallet0\<close>.\<close>

definition window_empty :: host_window where
  "window_empty = \<lparr>solana = None\<rparr>"


definition window_phantom :: host_window where
  "window_phantom = \<lparr>solana = Some (InjectedObject wallet0)\<rparr>"

section \<open>How a handler body changes the state\<close>

text \<open>
  Every asynchronous body of the page is \<open>steady\<close>: it adds lines to the log through
  \<open>addLog\<close>, adds calls to the trace, and leaves the session, the cluster and the
  connection alone. The lemmas follow the structure of the bodies: one rule per
  combinator, then one lemma per builder and per handler.
\<close>

lemma grows_refl: "grows w w"
  unfolding grows_def by (intro conjI exI[of _ "[]"]) simp_all

lemma grows_trans: "grows a b \<Longrightarrow> grows b c \<Longrightarrow> grows a c"
  unfolding grows_def
proof (elim conjE exE, intro conjI)
  fix ms cs ms' cs'
  assume "logs b = logs a @ map (\<lambda>m. ''> '' @ m) ms" "logs c = logs b @ map (\<lambda>m. ''> '' @ m) ms'"
  then have "logs c = logs a @ map (\<lambda>m. ''> '' @ m) (ms @ ms')" by simp
  then show "\<exists>ms. logs c = logs a @ map (\<lambda>m. ''> '' @ m) ms" ..
next
  fix ms cs ms' cs'
  assume "trace b = trace a @ cs" "trace c = trace b @ cs'"
  then have "trace c = trace a @ (cs @ cs')" by simp
  then show "\<exists>cs. trace c = trace a @ cs" ..
qed simp_all

lemma grows_addLog: "grows w (addLog l w)"
  unfolding grows_def addLog_def by (intro conjI exI[of _ "[l]"] exI[of _ "[]"]) simp_all

lemma grows_trace: "grows w (w\<lparr>trace := trace w @ cs\<rparr>)"
  unfolding grows_def by (intro conjI exI[of _ "[]"] exI[of _ cs]) simp_all

lemma steadyD: "steady m \<Longrightarrow> m w = (r, w') \<Longrightarrow> grows w w'"
  unfolding steady_def by (metis snd_conv)

lemma steady_resolve: "steady (resolve x)"
  by (simp add: steady_def resolve_def grows_refl)

lemma steady_reject: "steady (reject f)"
  by (simp add: steady_def reject_def grows_refl)

lemma steady_settled: "steady (settled r)"
  by (simp add: steady_def settled_def grows_refl)

lemma steady_effect: "steady (effect (addLog l))"
  by (simp add: steady_def effect_def grows_addLog)

lemma steady_await: "steady m \<Longrightarrow> (\<And>x. steady (k x)) \<Longrightarrow> steady (await m k)"
  unfolding steady_def await_def
proof
  fix w
  assume m: "\<forall>w. grows w (snd (m w))" and k: "\<And>x. \<forall>w. grows w (snd (k x w))"
  obtain r w' where mw: "m w = (r, w')" by (cases "m w")
  from m have g: "grows w w'" using mw by (metis snd_conv)
  show "grows w (snd (case m w of (Inl f, w') \<Rightarrow> (Inl f, w') | (Inr x, w') \<Rightarrow> k x w'))"
  proof (cases r)
    case (Inl f) then show ?thesis using mw g by simp
  next
    case (Inr x)
    then show ?thesis using mw g k[of x] grows_trans by auto
  qed
qed

lemma steady_read_code_and_message: "steady (read_code_and_message err)"
  by (cases err) (simp_all add: read_code_and_message_def steady_reject steady_resolve)

lemma steady_call_provider: "steady (call_provider c answer)"
  by (simp add: steady_def call_provider_def grows_trace split: sum.split)

lemma steady_call_rpc: "steady (call_rpc c answer)"
  by (simp add: steady_def call_rpc_def grows_trace split: sum.split)

lemma steady_getATA: "steady (call_getAssociatedTokenAddress e m k)"
  by (simp add: steady_def call_getAssociatedTokenAddress_def grows_trace split: sum.split)

lemma steady_resume:
  assumes "\<And>w. grows w (snd (start w))" and "\<And>s. steady (finish s)"
  shows "steady (resume start finish)"
  unfolding steady_def resume_def
proof
  fix w
  obtain s w1 where a: "start w = (s, w1)" by (cases "start w")
  have "grows w w1" using assms(1)[of w] a by simp
  moreover have "grows w1 (snd (finish s w1))" using assms(2) by (simp add: steady_def)
  ultimately show "grows w (snd (case start w of (s, w') \<Rightarrow> finish s w'))"
    using a grows_trans by auto
qed

lemma steady_promise_all2:
  assumes st: "\<And>w. grows w (snd (start w))" and fi: "\<And>s. steady (finish s)"
  shows "steady (promise_all2 start finish)"
  unfolding steady_def
proof
  fix w
  obtain s1 w1 where a: "start w = (s1, w1)" by (cases "start w")
  obtain s2 w2 where b: "start w1 = (s2, w2)" by (cases "start w1")
  obtain r1 w3 where c: "finish s1 w2 = (r1, w3)" by (cases "finish s1 w2")
  obtain r2 w4 where d: "finish s2 w3 = (r2, w4)" by (cases "finish s2 w3")
  have "grows w w1" using st[of w] a by simp
  moreover have "grows w1 w2" using st[of w1] b by simp
  moreover have "grows w2 w3" using fi c by (rule steadyD)
  moreover have "grows w3 w4" using fi d by (rule steadyD)
  ultimately have g: "grows w w4" by (blast intro: grows_trans)
  have "snd (promise_all2 start finish w) = w4"
    by (simp add: promise_all2_def a b c d split: sum.split)
  then show "grows w (snd (promise_all2 start finish w))" using g by simp
qed

lemma steady_promise_all3:
  assumes st: "\<And>w. grows w (snd (start w))" and mi: "\<And>s. steady (middle s)"
    and fi: "\<And>s. steady (finish s)"
  shows "steady (promise_all3 start middle finish)"
  unfolding steady_def
proof
  fix w
  obtain s1 w1 where a: "start w = (s1, w1)" by (cases "start w")
  obtain s2 w2 where b: "start w1 = (s2, w2)" by (cases "start w1")
  obtain m1 w3 where c: "middle s1 w2 = (m1, w3)" by (cases "middle s1 w2")
  obtain m2 w4 where d: "middle s2 w3 = (m2, w4)" by (cases "middle s2 w3")
  have "grows w w1" using st[of w] a by simp
  moreover have "grows w1 w2" using st[of w1] b by simp
  moreover have "grows w2 w3" using mi c by (rule steadyD)
  moreover have "grows w3 w4" using mi d by (rule steadyD)
  ultimately have g: "grows w w4" by (blast intro: grows_trans)
  have f1: "\<And>x. grows w4 (snd (finish x w4))" using fi by (simp add: steady_def)
  have f2: "\<And>x y r r' w5 w6. finish x w4 = (r, w5) \<Longrightarrow> finish y w5 = (r', w6) \<Longrightarrow> grows w4 w6"
  proof -
    fix x y r r' w5 w6 assume h: "finish x w4 = (r, w5)" and h': "finish y w5 = (r', w6)"
    have "grows w4 w5" using fi h by (rule steadyD)
    moreover have "grows w5 w6" using fi h' by (rule steadyD)
    ultimately show "grows w4 w6" by (rule grows_trans)
  qed
  have "grows w4 (snd (promise_all3 start middle finish w))"
    by (auto simp: promise_all3_def a b c d grows_refl f1 f2 split: sum.split prod.split)
  then show "grows w (snd (promise_all3 start middle finish w))" using g grows_trans by blast
qed

lemma grows_issue_all: "grows w (snd (issue_all e txs w))"
proof (induction txs arbitrary: w)
  case Nil show ?case by (simp add: grows_refl)
next
  case (Cons tx txs)
  obtain r w1 where a: "sendRawTransaction_call e (serialize (lib e) tx) w = (r, w1)"
    by (cases "sendRawTransaction_call e (serialize (lib e) tx) w")
  have "steady (sendRawTransaction_call e (serialize (lib e) tx))"
    by (simp add: sendRawTransaction_call_def steady_call_rpc)
  then have "grows w w1" using a by (rule steadyD)
  moreover have "grows w1 (snd (issue_all e txs w1))" by (rule Cons.IH)
  ultimately show ?case using a by (auto split: prod.split intro: grows_trans)
qed

lemma steady_sendRawTransaction_all: "steady (sendRawTransaction_all e txns)"
  using grows_issue_all[of _ e txns]
  by (auto simp: steady_def sendRawTransaction_all_def split: prod.split) (metis snd_conv)

lemmas steady_intros = steady_resolve steady_reject steady_effect steady_await steady_call_provider
  steady_call_rpc steady_getATA steady_settled steady_sendRawTransaction_all

lemmas call_defs = getRecentBlockhash_call_def getLatestBlockhash_call_def
  getAddressLookupTable_call_def confirmTransaction_call_def sendRawTransaction_call_def
  connect_call_def disconnect_call_def signTransaction_call_def signAllTransactions_call_def
  signMessage_call_def signAndSendTransaction_call_def request_call_def

lemma steady_createTransferTransaction: "steady (createTransferTransaction e)"
  by (auto simp: createTransferTransaction_def call_defs Let_def split: option.split intro!: steady_intros)

lemma steady_createSplTokenTransferTransaction: "steady (createSplTokenTransferTransaction e)"
  by (auto simp: createSplTokenTransferTransaction_def call_defs Let_def split: option.split intro!: steady_intros)

lemma steady_App_createSplTokenTransferTransaction: "steady (App_createSplTokenTransferTransaction e)"
  by (auto simp: App_createSplTokenTransferTransaction_def call_defs Let_def split: option.split intro!: steady_intros)

lemma steady_createTransferTransactionV0: "steady (createTransferTransactionV0 e)"
  by (auto simp: createTransferTransactionV0_def call_defs Let_def split: option.split intro!: steady_intros)

lemma steady_createTransferTransactionV0WithLookupTable: "steady (createTransferTransactionV0WithLookupTable e a)"
  by (auto simp: createTransferTransactionV0WithLookupTable_def call_defs Let_def split: option.split intro!: steady_intros)

lemma steady_callSignAndSendTransaction: "steady (callSignAndSendTransaction e t c)"
  by (auto simp: callSignAndSendTransaction_def call_defs intro!: steady_intros)

lemmas steady_builders = steady_createTransferTransaction steady_createSplTokenTransferTransaction
  steady_App_createSplTokenTransferTransaction steady_createTransferTransactionV0
  steady_createTransferTransactionV0WithLookupTable steady_callSignAndSendTransaction

lemma grows_createTransferTransaction_start: "grows w (snd (createTransferTransaction_start e w))"
proof -
  have "steady (getRecentBlockhash_call e confimationLvl)"
    by (simp add: call_defs steady_call_rpc)
  then have "\<And>w. grows w (snd (getRecentBlockhash_call e confimationLvl w))"
    by (simp add: steady_def)
  then have "grows (addLog ''Getting recent blockhash'' w)
     (snd (getRecentBlockhash_call e confimationLvl (addLog ''Getting recent blockhash'' w)))" .
  then have "grows w (snd (getRecentBlockhash_call e confimationLvl (addLog ''Getting recent blockhash'' w)))"
    using grows_addLog grows_trans by blast
  then show ?thesis
    by (auto simp: createTransferTransaction_start_def grows_refl split: option.split prod.split)
qed

lemma steady_createTransferTransaction_finish: "steady (createTransferTransaction_finish s)"
  by (auto simp: createTransferTransaction_finish_def split: option.split prod.split sum.split intro!: steady_intros)

lemma grows_createTransferTransactionV0_start: "grows w (snd (createTransferTransactionV0_start e w))"
proof -
  have "steady (getLatestBlockhash_call e)" by (simp add: call_defs steady_call_rpc)
  then have "grows w (snd (getLatestBlockhash_call e w))" by (simp add: steady_def)
  then show ?thesis
    by (auto simp: createTransferTransactionV0_start_def grows_refl split: option.split prod.split)
qed

lemma steady_createTransferTransactionV0_finish: "steady (createTransferTransactionV0_finish s)"
  by (auto simp: createTransferTransactionV0_finish_def split: option.split prod.split sum.split intro!: steady_intros)

lemma grows_createTransferTransactionV0WithLookupTable_start:
  "grows w (snd (createTransferTransactionV0WithLookupTable_start e a w))"
proof -
  have "steady (getAddressLookupTable_call e a)" by (simp add: call_defs steady_call_rpc)
  then have "grows w (snd (getAddressLookupTable_call e a w))" by (simp add: steady_def)
  then show ?thesis
    by (auto simp: createTransferTransactionV0WithLookupTable_start_def grows_refl split: option.split prod.split)
qed

lemma steady_createTransferTransactionV0WithLookupTable_middle:
  "steady (createTransferTransactionV0WithLookupTable_middle e s)"
proof -
  have "steady (getLatestBlockhash_call e)" by (simp add: call_defs steady_call_rpc)
  then have g: "\<And>w. grows w (snd (getLatestBlockhash_call e w))" by (simp add: steady_def)
  have "steady (\<lambda>w. case getLatestBlockhash_call e w of (answer, w') \<Rightarrow> (Inr (Some (k, t, answer)), w'))" for k t
    unfolding steady_def using g by (auto split: prod.split) (metis snd_conv)
  then show ?thesis
    by (auto simp: createTransferTransactionV0WithLookupTable_middle_def split: option.split prod.split sum.split intro!: steady_intros)
qed

lemma steady_createTransferTransactionV0WithLookupTable_finish:
  "steady (createTransferTransactionV0WithLookupTable_finish m)"
  by (auto simp: createTransferTransactionV0WithLookupTable_finish_def split: option.split prod.split sum.split intro!: steady_intros)

lemma steady_build_pair: "steady (build_pair e v0 lookupTable)"
  unfolding build_pair_def
  by (auto intro!: steady_intros steady_promise_all2 steady_promise_all3
        grows_createTransferTransaction_start steady_createTransferTransaction_finish
        grows_createTransferTransactionV0_start steady_createTransferTransactionV0_finish
        grows_createTransferTransactionV0WithLookupTable_start
        steady_createTransferTransactionV0WithLookupTable_middle
        steady_createTransferTransactionV0WithLookupTable_finish)

lemma steady_sign_and_send_batch: "steady (sign_and_send_batch e onlyFirst pair)"
  by (auto simp: sign_and_send_batch_def call_defs split: option.split prod.split intro!: steady_intros)

lemma steady_request_batch: "steady (request_batch e onlyFirst pair)"
  by (auto simp: request_batch_def call_defs split: option.split prod.split intro!: steady_intros)

lemma steady_handler_try: "steady (handler_try e h)"
proof (cases h)
  case (Click_signSingleTransaction v0 lookupTable)
  then show ?thesis
    by (auto simp: signSingleTransaction_try_def call_defs intro!: steady_intros steady_builders)
next
  case (Click_signSingleTransactionRequest v0)
  then show ?thesis
    by (auto simp: signSingleTransactionRequest_try_def call_defs split: option.split intro!: steady_intros steady_builders)
next
  case (Click_signMultipleTransactions onlyFirst v0 lookupTable)
  then show ?thesis
    by (auto simp: signMultipleTransactions_try_def intro!: steady_intros steady_build_pair steady_sign_and_send_batch)
next
  case (Click_signMultipleTransactionsRequest onlyFirst v0)
  then show ?thesis
    by (auto simp: signMultipleTransactionsRequest_try_def intro!: steady_intros steady_build_pair steady_request_batch)
next
  case (Click_App_signMultipleTransactions onlyFirst)
  then show ?thesis
    by (auto simp: App_signMultipleTransactions_try_def intro!: steady_intros steady_promise_all2
        grows_createTransferTransaction_start steady_createTransferTransaction_finish steady_sign_and_send_batch)
qed (auto simp: signAndSendTransaction_try_def signAndSendTransactionV0_try_def
      signAndSendTransactionV0WithLookupTable_try_def signAndSendTransactionRequest_try_def
      signAndSendSplTokenTransaction_try_def signMessage_try_def signMessageRequest_try_def
      onClick_Disconnect_try_def onClick_DisconnectRequest_try_def onClick_Connect_try_def
      onClick_ConnectRequest_try_def onClick_EagerlyConnect_try_def onClick_EagerlyConnectRequest_try_def
      App_signAndSendTransaction_try_def App_signAndSendSplTokenTransaction_try_def
      App_signSingleTransction_try_def App_signSingleTransctionRequest_try_def App_signMessage_try_def
      call_defs Let_def split: option.split intro!: steady_intros steady_builders)

section \<open>Which bodies call the wallet\<close>

text \<open>
  A body is \<open>quiet\<close> when it makes no call of the wallet: the builders, which call the node
  and the library only, and the reads of the \<^verbatim>\<open>catch\<close> blocks. The rules follow the
  combinators, as for \<open>steady\<close>.
\<close>

lemma quiet_step_refl: "quiet_step w w"
  unfolding quiet_step_def by (intro exI[of _ "[]"]) simp





lemma quiet_resolve: "quiet (resolve x)"
  by (simp add: quiet_def resolve_def quiet_step_refl)

lemma quiet_reject: "quiet (reject f)"
  by (simp add: quiet_def reject_def quiet_step_refl)

























lemma quiet_read_code_and_message: "quiet (read_code_and_message err)"
  by (cases err) (simp_all add: read_code_and_message_def quiet_reject quiet_resolve)













section \<open>Facts about the builders and the handlers\<close>

text \<open>The builders agree with their parts.\<close>

lemma createTransferTransaction_parts:
  "createTransferTransaction e = resume (createTransferTransaction_start e) createTransferTransaction_finish"
  by (rule ext)
    (simp add: createTransferTransaction_def createTransferTransaction_start_def
      createTransferTransaction_finish_def resume_def call_defs await_def resolve_def reject_def
      effect_def call_rpc_def Let_def split: option.split sum.split)

lemma createTransferTransactionV0_parts:
  "createTransferTransactionV0 e =
     resume (createTransferTransactionV0_start e) createTransferTransactionV0_finish"
  by (rule ext)
    (simp add: createTransferTransactionV0_def createTransferTransactionV0_start_def
      createTransferTransactionV0_finish_def resume_def call_defs await_def resolve_def reject_def
      call_rpc_def split: option.split sum.split)

lemma createTransferTransactionV0WithLookupTable_parts:
  "createTransferTransactionV0WithLookupTable e a =
     resume (createTransferTransactionV0WithLookupTable_start e a)
       (\<lambda>s. await (createTransferTransactionV0WithLookupTable_middle e s)
                createTransferTransactionV0WithLookupTable_finish)"
  by (rule ext)
    (simp add: createTransferTransactionV0WithLookupTable_def
      createTransferTransactionV0WithLookupTable_start_def
      createTransferTransactionV0WithLookupTable_middle_def
      createTransferTransactionV0WithLookupTable_finish_def resume_def call_defs await_def
      resolve_def reject_def call_rpc_def split: option.split sum.split)

text \<open>A rejection tagged \<open>FromProvider\<close> is a rejected wallet call, and conversely.\<close>

lemma call_provider_rejected:
  "call_provider c answer w = (Inl f, w') \<longleftrightarrow>
     (\<exists>err. answer (length (trace w)) = Inl err \<and> f = Failure FromProvider err) \<and>
     w' = w\<lparr>trace := trace w @ [Provider c]\<rparr>"
  by (auto simp: call_provider_def split: sum.splits)

text \<open>
  Every click handler is its \<^verbatim>\<open>try\<close> body under one \<^verbatim>\<open>catch\<close> that logs one line; in the
  token-transfer handlers the \<^verbatim>\<open>catch\<close> reads \<^verbatim>\<open>err.code\<close> and \<^verbatim>\<open>err.message\<close> before that.
\<close>

lemmas handler_defs = signAndSendTransaction_def signAndSendTransactionV0_def
  signAndSendTransactionV0WithLookupTable_def signAndSendTransactionRequest_def
  signAndSendSplTokenTransaction_def signSingleTransaction_def signSingleTransactionRequest_def
  signMultipleTransactions_def signMultipleTransactionsRequest_def signMessage_def
  signMessageRequest_def onClick_Disconnect_def onClick_DisconnectRequest_def onClick_Connect_def
  onClick_ConnectRequest_def onClick_EagerlyConnect_def onClick_EagerlyConnectRequest_def
  App_signAndSendTransaction_def App_signAndSendSplTokenTransaction_def
  App_signSingleTransction_def App_signSingleTransctionRequest_def App_signMultipleTransactions_def
  App_signMessage_def

lemmas io_defs = await_def resolve_def reject_def effect_def call_provider_def call_rpc_def
  call_getAssociatedTokenAddress_def try_catch_def

lemma run_handler_try_catch:
  "run_handler e h =
     try_catch (handler_try e h)
       (\<lambda>err.
          if reads_error_fields h then
            await (read_code_and_message err) (\<lambda>warned.
            effect (addLog (''[error] '' @ error_label h @ '': '' @ json_error (lib e) err)))
          else effect (addLog (''[error] '' @ error_label h @ '': '' @ json_error (lib e) err)))"
  by (cases h) (simp_all add: handler_defs)

lemma grows_try_catch:
  assumes "steady body" and "\<And>err. steady (handler err)"
  shows "grows w (try_catch body handler w)"
proof -
  obtain r w' where b: "body w = (r, w')" by (cases "body w")
  have g: "grows w w'" using assms(1) b by (rule steadyD)
  show ?thesis
  proof (cases r)
    case (Inl f)
    have "grows w' (snd (handler (rejection_of f) w'))"
      using assms(2)[of "rejection_of f"] by (simp add: steady_def)
    then show ?thesis using b Inl g grows_trans by (auto simp: try_catch_def)
  next
    case (Inr u) then show ?thesis using b g by (simp add: try_catch_def)
  qed
qed

lemma grows_run_handler: "grows w (run_handler e h w)"
  unfolding run_handler_try_catch
  by (rule grows_try_catch)
    (auto intro!: steady_handler_try steady_await steady_effect steady_read_code_and_message)

text \<open>The batch of raw transactions goes out in the order of the list.\<close>

lemma issue_all_trace:
  "trace (snd (issue_all e txs w)) =
     trace w @ map (\<lambda>tx. Rpc (connection w) (SendRawTransaction (serialize (lib e) tx))) txs \<and>
   connection (snd (issue_all e txs w)) = connection w \<and>
   logs (snd (issue_all e txs w)) = logs w"
proof (induction txs arbitrary: w)
  case Nil show ?case by simp
next
  case (Cons tx txs)
  obtain r w1 where a: "sendRawTransaction_call e (serialize (lib e) tx) w = (r, w1)"
    by (cases "sendRawTransaction_call e (serialize (lib e) tx) w")
  then have w1: "trace w1 = trace w @ [Rpc (connection w) (SendRawTransaction (serialize (lib e) tx))]"
    "connection w1 = connection w" "logs w1 = logs w"
    by (auto simp: sendRawTransaction_call_def call_rpc_def split: sum.splits)
  obtain rs w2 where b: "issue_all e txs w1 = (rs, w2)" by (cases "issue_all e txs w1")
  show ?case using Cons.IH[of w1] a b w1 by simp
qed

text \<open>
  The two legacy payloads of a batch: the first carries the answer to the first request,
  the second the answer to the second.
\<close>

lemma build_pair_legacy:
  assumes key: "wallet_publicKey (provider e) = Some k"
    and first: "rpc_getRecentBlockhash (client e) (length (trace w)) (connection w) ''finalized'' = Inr b1"
    and second: "rpc_getRecentBlockhash (client e) (Suc (length (trace w))) (connection w) ''finalized'' = Inr b2"
  shows "build_pair e False False w =
     (Inr (Some (Legacy \<lparr>instructions = [SystemTransfer k k 100], feePayer = Some k, recentBlockhash = Some b1\<rparr>),
           Some (Legacy \<lparr>instructions = [SystemTransfer k k 100], feePayer = Some k, recentBlockhash = Some b2\<rparr>)),
      w\<lparr>logs := logs w @ [''> Getting recent blockhash'', ''> Getting recent blockhash'',
                           ''> blockhash: '' @ b1 @ '' = finalized'', ''> blockhash: '' @ b2 @ '' = finalized''],
        trace := trace w @ [Rpc (connection w) (GetRecentBlockhash ''finalized''),
                            Rpc (connection w) (GetRecentBlockhash ''finalized'')]\<rparr>)"
  using key first second
  by (simp add: build_pair_def promise_all2_def createTransferTransaction_start_def
      createTransferTransaction_finish_def call_defs io_defs confimationLvl_def
      new_Transaction_def add_def addLog_def)

lemma App_signMultipleTransactions_legacy:
  "App_signMultipleTransactions e onlyFirst = signMultipleTransactions e onlyFirst False False"
proof -
  have "App_signMultipleTransactions_try e onlyFirst w = signMultipleTransactions_try e onlyFirst False False w" for w
    by (simp add: App_signMultipleTransactions_try_def signMultipleTransactions_try_def build_pair_def
        await_def resolve_def split: prod.split sum.split)
  then have "App_signMultipleTransactions_try e onlyFirst = signMultipleTransactions_try e onlyFirst False False"
    by (rule ext)
  then show ?thesis by (simp add: App_signMultipleTransactions_def signMultipleTransactions_def)
qed

text \<open>
  In the second file the legacy builders attach the fee payer and the block hash; the two
  version-0 builders do so by construction of the message.
\<close>

lemma builders_attach_payer_and_blockhash:
  "(createTransferTransaction e w = (Inr (Some t), w') \<longrightarrow>
      feePayer t = wallet_publicKey (provider e) \<and> feePayer t \<noteq> None \<and> recentBlockhash t \<noteq> None) \<and>
   (createSplTokenTransferTransaction e w = (Inr (Some t), w') \<longrightarrow>
      feePayer t = wallet_publicKey (provider e) \<and> feePayer t \<noteq> None \<and> recentBlockhash t \<noteq> None)"
  by (auto simp: createTransferTransaction_def createSplTokenTransferTransaction_def call_defs io_defs
      new_Transaction_def add_def Let_def split: option.splits sum.splits)

text \<open>
  The two version-0 builders do not build the same instruction: the plain one pays the
  connected account itself, the one with the lookup table pays the fixed test account.
\<close>

lemma v0_builders_instructions:
  "createTransferTransactionV0 e w = (Inr (Some m), w') \<Longrightarrow>
   createTransferTransactionV0WithLookupTable e a v = (Inr (Some m'), v') \<Longrightarrow>
   wallet_publicKey (provider e) = Some k \<Longrightarrow>
     v0_instructions m = [SystemTransfer k k 100] \<and>
     v0_instructions m' = [SystemTransfer k kTestToPublicKeyInTableLookup 100]"
  by (auto simp: createTransferTransactionV0_def createTransferTransactionV0WithLookupTable_def
      call_defs io_defs split: sum.splits option.splits)

text \<open>The event handlers append to the log.\<close>

lemma logs_on_accountChanged:
  "\<exists>ms. logs (on_accountChanged p k w) = logs w @ map (\<lambda>m. ''> '' @ m) ms"
proof (cases k)
  case None
  have "logs (on_accountChanged p k w) = logs w @ map (\<lambda>m. ''> '' @ m)
     (''[accountChanged] Switched unknown account'' #
      (case wallet_connect p (length (trace w)) None of
         Inl Nullish \<Rightarrow> []
       | Inl (ErrorObject x) \<Rightarrow> [''[accountChanged] Failed to re-connect: '' @ err_message x]
       | Inr u \<Rightarrow> [''[accountChanged] Reconnected successfully'']))"
    by (simp add: None on_accountChanged_def addLog_def setPublicKey_def connect_call_def
        call_provider_def split: sum.split rejection.split)
  then show ?thesis ..
next
  case (Some key)
  have "logs (on_accountChanged p k w) =
          logs w @ map (\<lambda>m. ''> '' @ m) [''[accountChanged] Switched account to '' @ key]"
    by (simp add: Some on_accountChanged_def addLog_def setPublicKey_def)
  then show ?thesis ..
qed

lemma logs_handle_event:
  "\<exists>ms. logs (handle_event p ev w) = logs w @ map (\<lambda>m. ''> '' @ m) ms"
proof (cases ev)
  case (ConnectEvent k)
  have "logs (handle_event p ev w) = logs w @ map (\<lambda>m. ''> '' @ m) [''[connect] '' @ k]"
    by (simp add: ConnectEvent on_connect_def addLog_def setConnected_def setPublicKey_def)
  then show ?thesis ..
next
  case DisconnectEvent
  have "logs (handle_event p ev w) = logs w @ map (\<lambda>m. ''> '' @ m) [''[disconnect] '' @ waving_hand]"
    by (simp add: DisconnectEvent on_disconnect_def addLog_def setConnected_def setPublicKey_def)
  then show ?thesis ..
next
  case (AccountChangedEvent k)
  then show ?thesis using logs_on_accountChanged[of p k w] by simp
qed

lemma logs_App_handle_event:
  "\<exists>ms. logs (App_handle_event p ev w) = logs w @ map (\<lambda>m. ''> '' @ m) ms"
proof (cases ev)
  case (ConnectEvent k)
  have "logs (App_handle_event p ev w) = logs w @ map (\<lambda>m. ''> '' @ m) [''[connect] '' @ k]"
    by (simp add: ConnectEvent on_connect_def addLog_def setConnected_def setPublicKey_def)
  then show ?thesis ..
next
  case DisconnectEvent
  have "logs (App_handle_event p ev w) =
          logs w @ map (\<lambda>m. ''> '' @ m) [''[disconnect] '' @ App_waving_hand]"
    by (simp add: DisconnectEvent App_on_disconnect_def addLog_def setConnected_def
        setPublicKey_def)
  then show ?thesis ..
next
  case (AccountChangedEvent k)
  then show ?thesis using logs_on_accountChanged[of p k w] by simp
qed

section \<open>The claims\<close>

subsection \<open>C1: account identity and connected flag\<close>

text \<open>
  C1, as amended. After the connect handler has run the account identity is the one the
  event carried and the connected flag is true; after the disconnect handler has run the
  identity is null and the flag is false (in both files). The accountChanged handler
  stores the identity it is given and does not touch the flag, so after it the identity
  is non-null exactly when the flag is set if and only if the new identity is non-null
  exactly when the flag was set before.
\<close>

theorem session_after_event:
  "publicKey (handle_event p (ConnectEvent k) w) = Some k \<and>
   connected (handle_event p (ConnectEvent k) w) = True \<and>
   session_consistent (handle_event p (ConnectEvent k) w) \<and>
   publicKey (handle_event p DisconnectEvent w) = None \<and>
   connected (handle_event p DisconnectEvent w) = False \<and>
   session_consistent (handle_event p DisconnectEvent w) \<and>
   publicKey (handle_event p (AccountChangedEvent k') w) = k' \<and>
   connected (handle_event p (AccountChangedEvent k') w) = connected w \<and>
   session_consistent (handle_event p (AccountChangedEvent k') w) = ((k' \<noteq> None) = connected w) \<and>
   publicKey (App_handle_event p (ConnectEvent k) w) = Some k \<and>
   connected (App_handle_event p (ConnectEvent k) w) = True \<and>
   publicKey (App_handle_event p DisconnectEvent w) = None \<and>
   connected (App_handle_event p DisconnectEvent w) = False \<and>
   App_handle_event p (AccountChangedEvent k') w = handle_event p (AccountChangedEvent k') w"
proof -
  have c: "publicKey (on_connect k w) = Some k" "connected (on_connect k w) = True"
    by (simp_all add: on_connect_def addLog_def setConnected_def setPublicKey_def)
  have d: "publicKey (on_disconnect w) = None" "connected (on_disconnect w) = False"
    "publicKey (App_on_disconnect w) = None" "connected (App_on_disconnect w) = False"
    by (simp_all add: on_disconnect_def App_on_disconnect_def addLog_def setConnected_def
        setPublicKey_def)
  have a: "publicKey (on_accountChanged p k' w) = k'"
    "connected (on_accountChanged p k' w) = connected w"
    by (simp_all add: on_accountChanged_def addLog_def setPublicKey_def connect_call_def
        call_provider_def split: option.split sum.split rejection.split)
  show ?thesis using c d a by (simp add: session_consistent_def)
qed

text \<open>
  C1 as stated fails: after a connect event and an accountChanged event without an identity
  the flag is set and the identity is null.
\<close>

theorem session_invariant_counterexample:
  "\<not> session_consistent
        (handle_event wallet0 (AccountChangedEvent None)
           (handle_event wallet0 (ConnectEvent ''Alice'') (initial_world sdk0)))"
  by (simp add: session_consistent_def on_connect_def on_accountChanged_def addLog_def
      setConnected_def setPublicKey_def connect_call_def call_provider_def initial_world_def
      wallet0_def)

subsection \<open>C2: the request path of sign-and-send\<close>

text \<open>
  C2, as amended. For a connected account and successful answers, the generic-request
  handler and the direct handler fetch the same block hash, call the wallet once, confirm
  the returned signature and log the same three lines. The request handler sends the
  payload as the base-58 text of its serialized message under the method name
  \<^verbatim>\<open>signAndSendTransaction\<close>, with \<^verbatim>\<open>maxRetries\<close> 3 and \<^verbatim>\<open>skipPreflight\<close> false as the direct
  handler does, but with \<^verbatim>\<open>preflightCommitment\<close> \<^verbatim>\<open>confirmed\<close> where the direct handler passes
  \<^verbatim>\<open>finalized\<close>.
\<close>

theorem request_path_against_direct_path:
  assumes key: "wallet_publicKey (provider e) = Some k"
    and hash: "rpc_getRecentBlockhash (client e) (length (trace w)) (connection w) ''finalized'' = Inr b"
    and t: "t = \<lparr>instructions = [SystemTransfer k k 100], feePayer = Some k, recentBlockhash = Some b\<rparr>"
    and direct: "wallet_signAndSendTransaction (provider e) (Suc (length (trace w))) (Legacy t)
                   \<lparr>maxRetries = 3, preflightCommitment = ''finalized'', skipPreflight = False\<rparr> = Inr sg"
    and generic: "wallet_request (provider e) (Suc (length (trace w)))
                   \<lparr>req_method = ''signAndSendTransaction'',
                    req_params = Some (MessageOptionParams (bs58_encode (lib e) (serializeMessage (lib e) t))
                      \<lparr>maxRetries = 3, preflightCommitment = ''confirmed'', skipPreflight = False\<rparr>)\<rparr> = Inr r"
    and same: "res_signature r = sg"
    and confirmed: "rpc_confirmTransaction (client e) (Suc (Suc (length (trace w)))) (connection w) sg = Inr ()"
  shows "trace (signAndSendTransaction e w) =
           trace w @ [Rpc (connection w) (GetRecentBlockhash ''finalized''),
                      Provider (SignAndSendTransaction (Legacy t)
                        \<lparr>maxRetries = 3, preflightCommitment = ''finalized'', skipPreflight = False\<rparr>),
                      Rpc (connection w) (ConfirmTransaction sg)] \<and>
         trace (signAndSendTransactionRequest e w) =
           trace w @ [Rpc (connection w) (GetRecentBlockhash ''finalized''),
                      Provider (Request
                        \<lparr>req_method = ''signAndSendTransaction'',
                         req_params = Some (MessageOptionParams
                           (bs58_encode (lib e) (serializeMessage (lib e) t))
                           \<lparr>maxRetries = 3, preflightCommitment = ''confirmed'', skipPreflight = False\<rparr>)\<rparr>),
                      Rpc (connection w) (ConfirmTransaction sg)] \<and>
         logs (signAndSendTransaction e w) =
           logs w @ [''> Getting recent blockhash'', ''> blockhash: '' @ b @ '' = finalized'',
                     ''> Transaction '' @ sg @ '' confirmed''] \<and>
         logs (signAndSendTransactionRequest e w) = logs (signAndSendTransaction e w)"
proof -
  let ?w1 = "(addLog (''blockhash: '' @ b @ '' = finalized'') (addLog ''Getting recent blockhash'' w))
              \<lparr>trace := trace w @ [Rpc (connection w) (GetRecentBlockhash ''finalized'')]\<rparr>"
  have build: "createTransferTransaction e w = (Inr (Some t), ?w1)"
    using key hash
    by (simp add: createTransferTransaction_def call_defs io_defs confimationLvl_def
        new_Transaction_def add_def addLog_def t Let_def)
  have d: "signAndSendTransaction e w =
             (addLog (''Transaction '' @ sg @ '' confirmed'') ?w1)
               \<lparr>trace := trace w @ [Rpc (connection w) (GetRecentBlockhash ''finalized''),
                      Provider (SignAndSendTransaction (Legacy t)
                        \<lparr>maxRetries = 3, preflightCommitment = ''finalized'', skipPreflight = False\<rparr>),
                      Rpc (connection w) (ConfirmTransaction sg)]\<rparr>"
    using direct confirmed
    by (simp add: signAndSendTransaction_def signAndSendTransaction_try_def
        callSignAndSendTransaction_def call_defs io_defs build addLog_def)
  have g: "signAndSendTransactionRequest e w =
             (addLog (''Transaction '' @ sg @ '' confirmed'') ?w1)
               \<lparr>trace := trace w @ [Rpc (connection w) (GetRecentBlockhash ''finalized''),
                      Provider (Request
                        \<lparr>req_method = ''signAndSendTransaction'',
                         req_params = Some (MessageOptionParams
                           (bs58_encode (lib e) (serializeMessage (lib e) t))
                           \<lparr>maxRetries = 3, preflightCommitment = ''confirmed'', skipPreflight = False\<rparr>)\<rparr>),
                      Rpc (connection w) (ConfirmTransaction sg)]\<rparr>"
    using generic same confirmed
    by (simp add: signAndSendTransactionRequest_def signAndSendTransactionRequest_try_def
        call_defs io_defs build addLog_def)
  show ?thesis unfolding d g by (simp add: addLog_def)
qed

text \<open>The amended C2 on the environment \<open>env0\<close>, from the initial state.\<close>

theorem request_path_against_direct_path_witness:
  "wallet_publicKey (provider env0) = Some ''Alice'' \<and>
   trace (signAndSendTransaction env0 (initial_world sdk0)) =
     [Rpc devnet (GetRecentBlockhash ''finalized''),
      Provider (SignAndSendTransaction (Legacy transfer_A)
        \<lparr>maxRetries = 3, preflightCommitment = ''finalized'', skipPreflight = False\<rparr>),
      Rpc devnet (ConfirmTransaction ''sig1'')] \<and>
   trace (signAndSendTransactionRequest env0 (initial_world sdk0)) =
     [Rpc devnet (GetRecentBlockhash ''finalized''),
      Provider (Request
        \<lparr>req_method = ''signAndSendTransaction'',
         req_params = Some (MessageOptionParams ''2''
           \<lparr>maxRetries = 3, preflightCommitment = ''confirmed'', skipPreflight = False\<rparr>)\<rparr>),
      Rpc devnet (ConfirmTransaction ''sig1'')] \<and>
   logs (signAndSendTransactionRequest env0 (initial_world sdk0)) =
     [''> Getting recent blockhash'', ''> blockhash: hashA = finalized'',
      ''> Transaction sig1 confirmed'']"
proof -
  let ?w = "initial_world sdk0"
  let ?r = "\<lparr>res_signature = ''sig1'', res_rest = ''{}''\<rparr>"
  have key: "wallet_publicKey (provider env0) = Some ''Alice''"
    by (simp add: env0_def wallet0_def)
  have hash: "rpc_getRecentBlockhash (client env0) (length (trace ?w)) (connection ?w)
                ''finalized'' = Inr ''hashA''"
    by (simp add: env0_def rpc0_def initial_world_def)
  have t: "transfer_A = \<lparr>instructions = [SystemTransfer ''Alice'' ''Alice'' 100],
                          feePayer = Some ''Alice'', recentBlockhash = Some ''hashA''\<rparr>"
    by (simp add: transfer_A_def)
  have direct: "wallet_signAndSendTransaction (provider env0) (Suc (length (trace ?w)))
                  (Legacy transfer_A)
                  \<lparr>maxRetries = 3, preflightCommitment = ''finalized'', skipPreflight = False\<rparr> =
                Inr ''sig1''"
    by (simp add: env0_def wallet0_def)
  have generic: "wallet_request (provider env0) (Suc (length (trace ?w)))
                   \<lparr>req_method = ''signAndSendTransaction'',
                    req_params = Some (MessageOptionParams
                      (bs58_encode (lib env0) (serializeMessage (lib env0) transfer_A))
                      \<lparr>maxRetries = 3, preflightCommitment = ''confirmed'', skipPreflight = False\<rparr>)\<rparr> =
                 Inr ?r"
    by (simp add: env0_def wallet0_def)
  have same: "res_signature ?r = ''sig1''" by simp
  have confirmed: "rpc_confirmTransaction (client env0) (Suc (Suc (length (trace ?w))))
                     (connection ?w) ''sig1'' = Inr ()"
    by (simp add: env0_def rpc0_def)
  have encoded: "bs58_encode (lib env0) (serializeMessage (lib env0) transfer_A) = ''2''"
    by (simp add: env0_def sdk0_def transfer_A_def)
  have start: "connection ?w = devnet" "trace ?w = []" "logs ?w = []"
    by (simp_all add: initial_world_def sdk0_def devnet_def)
  show ?thesis
    using request_path_against_direct_path[OF key hash t direct generic same confirmed]
      key encoded start
    by simp
qed

text \<open>
  C2 as stated fails: on \<open>env0\<close> the options the request path sends are not the options
  the direct path sends.
\<close>

theorem request_path_options_counterexample:
  "List.map_filter sent_options (trace (signAndSendTransactionRequest env0 (initial_world sdk0))) \<noteq>
   List.map_filter sent_options (trace (signAndSendTransaction env0 (initial_world sdk0)))"
  by (simp add: env0_def wallet0_def rpc0_def sdk0_def initial_world_def List.map_filter_simps
      signAndSendTransaction_def signAndSendTransaction_try_def
      signAndSendTransactionRequest_def signAndSendTransactionRequest_try_def
      createTransferTransaction_def callSignAndSendTransaction_def
      call_defs io_defs confimationLvl_def new_Transaction_def add_def addLog_def Let_def)

subsection \<open>C3: rejected provider calls\<close>




text \<open>
  A wallet that rejects the token transfer with \<^verbatim>\<open>undefined\<close>: the read of \<^verbatim>\<open>err.code\<close> in
  the \<^verbatim>\<open>catch\<close> block throws, and no error line is logged.
\<close>

lemma token_transfer_rejected_with_undefined:
  "rejected_at (provider env_rejecting_undefined)
     (trace (signAndSendSplTokenTransaction env_rejecting_undefined (initial_world sdk0))) 3 =
     Some Nullish \<and>
   logs (signAndSendSplTokenTransaction env_rejecting_undefined (initial_world sdk0)) =
     [''> blockhash: hashB = finalized'', ''> created tx:{}'']"
  by (simp add: signAndSendSplTokenTransaction_def signAndSendSplTokenTransaction_try_def
      createSplTokenTransferTransaction_def read_code_and_message_def call_defs io_defs
      addLog_def rejected_at_def env_rejecting_undefined_def wallet_rejecting_undefined_def
      env0_def wallet0_def rpc0_def sdk0_def initial_world_def new_Transaction_def add_def
      Let_def)

subsection \<open>C4: batch signing\<close>

text \<open>
  C4, as amended. Once both payloads are built, the batch handler calls
  \<^verbatim>\<open>signAllTransactions\<close> once: with the list of exactly the first payload when
  \<^verbatim>\<open>onlyFirst\<close> is true, with the list of exactly the two payloads, first before second,
  otherwise. It then submits every signed payload of the list the wallet returned, in the
  order of that list. How many signed payloads come back, and in which order, is the
  wallet's answer; the handler does not compare it with what it sent. The handler of
  \<^verbatim>\<open>src/src/App.tsx\<close> is the legacy case of the handler of the second file.
\<close>

theorem batch_sign_inputs_and_submissions:
  assumes built: "build_pair e v0 lookupTable w = (Inr (Some t1, Some t2), w1)"
    and signed: "wallet_signAllTransactions (provider e) (length (trace w1))
                   (if onlyFirst then [t1] else [t1, t2]) = Inr txns"
  shows "trace (signMultipleTransactions e onlyFirst v0 lookupTable w) =
           trace w1 @ Provider (SignAllTransactions (if onlyFirst then [t1] else [t1, t2]))
             # map (\<lambda>tx. Rpc (connection w1) (SendRawTransaction (serialize (lib e) tx))) txns \<and>
         App_signMultipleTransactions e onlyFirst = signMultipleTransactions e onlyFirst False False"
proof -
  let ?w2 = "addLog (''signMultipleTransactions txns: '' @ json_signed_list (lib e) txns)
     (w1\<lparr>trace := trace w1 @ [Provider (SignAllTransactions (if onlyFirst then [t1] else [t1, t2]))]\<rparr>)"
  obtain rs w3 where i: "issue_all e txns ?w2 = (rs, w3)" by (cases "issue_all e txns ?w2")
  have w3: "trace w3 = trace ?w2 @ map (\<lambda>tx. Rpc (connection ?w2) (SendRawTransaction (serialize (lib e) tx))) txns"
    using issue_all_trace[of e txns ?w2] i by simp
  have "trace (signMultipleTransactions e onlyFirst v0 lookupTable w) = trace w3"
    using built signed i
    by (cases "settle_all rs")
       (simp_all add: signMultipleTransactions_def signMultipleTransactions_try_def
        sign_and_send_batch_def sendRawTransaction_all_def call_defs io_defs addLog_def)
  then show ?thesis using w3 App_signMultipleTransactions_legacy by (simp add: addLog_def)
qed

text \<open>
  The amended C4 on \<open>env0\<close>, whose node answers the two block hash requests differently:
  the payload with the first answer is sent and submitted first.
\<close>

theorem batch_sign_inputs_and_submissions_witness:
  "build_pair env0 False False (initial_world sdk0) =
     (Inr (Some (Legacy transfer_A), Some (Legacy transfer_B)),
      (initial_world sdk0)
        \<lparr>logs := [''> Getting recent blockhash'', ''> Getting recent blockhash'',
                   ''> blockhash: hashA = finalized'', ''> blockhash: hashB = finalized''],
         trace := [Rpc devnet (GetRecentBlockhash ''finalized''),
                   Rpc devnet (GetRecentBlockhash ''finalized'')]\<rparr>) \<and>
   trace (signMultipleTransactions env0 False False False (initial_world sdk0)) =
     [Rpc devnet (GetRecentBlockhash ''finalized''), Rpc devnet (GetRecentBlockhash ''finalized''),
      Provider (SignAllTransactions [Legacy transfer_A, Legacy transfer_B]),
      Rpc devnet (SendRawTransaction [5]), Rpc devnet (SendRawTransaction [5])]"
proof -
  let ?w1 = "(initial_world sdk0)
        \<lparr>logs := [''> Getting recent blockhash'', ''> Getting recent blockhash'',
                   ''> blockhash: hashA = finalized'', ''> blockhash: hashB = finalized''],
         trace := [Rpc devnet (GetRecentBlockhash ''finalized''),
                   Rpc devnet (GetRecentBlockhash ''finalized'')]\<rparr>"
  have built: "build_pair env0 False False (initial_world sdk0) =
     (Inr (Some (Legacy transfer_A), Some (Legacy transfer_B)), ?w1)"
    by (simp add: build_pair_def promise_all2_def createTransferTransaction_start_def
      createTransferTransaction_finish_def call_defs io_defs confimationLvl_def
      new_Transaction_def add_def addLog_def env0_def wallet0_def rpc0_def initial_world_def
      transfer_A_def transfer_B_def devnet_def sdk0_def)
  have signed: "wallet_signAllTransactions (provider env0) (length (trace ?w1))
                   (if False then [Legacy transfer_A] else [Legacy transfer_A, Legacy transfer_B]) =
                Inr [\<lparr>signed_payload = Legacy transfer_A, signed_by = ''Alice''\<rparr>,
                     \<lparr>signed_payload = Legacy transfer_B, signed_by = ''Alice''\<rparr>]"
    by (simp add: env0_def wallet0_def)
  show ?thesis
    using batch_sign_inputs_and_submissions[OF built signed] built
    by (simp add: initial_world_def devnet_def sdk0_def env0_def)
qed

text \<open>
  C4 as stated fails: a wallet may answer a batch of one payload with an empty list; the
  handler was invoked with exactly one payload, received none, and went on to its last
  log line.
\<close>

theorem batch_sign_result_counterexample:
  "wallet_signAllTransactions (provider env_empty_batch) 2 [Legacy transfer_A] = Inr [] \<and>
   trace (signMultipleTransactions env_empty_batch True False False (initial_world sdk0)) =
     [Rpc devnet (GetRecentBlockhash ''finalized''), Rpc devnet (GetRecentBlockhash ''finalized''),
      Provider (SignAllTransactions [Legacy transfer_A])] \<and>
   logs (signMultipleTransactions env_empty_batch True False False (initial_world sdk0)) =
     [''> Getting recent blockhash'', ''> Getting recent blockhash'',
      ''> blockhash: hashA = finalized'', ''> blockhash: hashB = finalized'',
      ''> signMultipleTransactions txns: []'', ''> sent raw txns: []'']"
  by (simp add: signMultipleTransactions_def signMultipleTransactions_try_def sign_and_send_batch_def
      sendRawTransaction_all_def build_pair_def promise_all2_def createTransferTransaction_start_def
      createTransferTransaction_finish_def call_defs io_defs confimationLvl_def
      new_Transaction_def add_def addLog_def env_empty_batch_def wallet_empty_batch_def
      env0_def wallet0_def rpc0_def initial_world_def
      transfer_A_def devnet_def sdk0_def)

subsection \<open>C5: fee payer and block hash on every payload\<close>

text \<open>
  C5 holds in the second file (\<open>builders_attach_payer_and_blockhash\<close>) and fails in
  \<^verbatim>\<open>src/src/App.tsx\<close>: there the token-transfer builder returns the bare instruction, and
  the handler passes it to \<^verbatim>\<open>signAndSendTransaction\<close> with a block hash and without a fee
  payer. On \<open>env0\<close>, from the initial state:
\<close>

theorem App_token_transfer_without_fee_payer:
  "trace (App_signAndSendSplTokenTransaction env0 (initial_world sdk0)) =
     [GetAssociatedTokenAddress token_mint ''Alice'',
      GetAssociatedTokenAddress token_mint token_recipient,
      Rpc devnet (GetRecentBlockhash ''finalized''),
      Provider (SignAndSendTransaction
        (BareInstruction (TokenTransfer ''ata-Alice'' (''ata-'' @ token_recipient) ''Alice'' 10000000) ''hashB'')
        \<lparr>maxRetries = 3, preflightCommitment = ''finalized'', skipPreflight = False\<rparr>),
      Rpc devnet (ConfirmTransaction ''sig1'')] \<and>
   payload_feePayer
     (BareInstruction (TokenTransfer ''ata-Alice'' (''ata-'' @ token_recipient) ''Alice'' 10000000) ''hashB'') = None"
  by (simp add: App_signAndSendSplTokenTransaction_def App_signAndSendSplTokenTransaction_try_def
      App_createSplTokenTransferTransaction_def call_defs io_defs addLog_def
      env0_def wallet0_def rpc0_def initial_world_def devnet_def sdk0_def)

subsection \<open>C6: the size of the payload with a lookup table\<close>

lemma test_recipient_not_system_program:
  "kTestToPublicKeyInTableLookup \<noteq> system_program"
  "system_program \<noteq> kTestToPublicKeyInTableLookup"
  by (simp_all add: kTestToPublicKeyInTableLookup_def system_program_def)

lemmas size_defs = message_size_def compile_keys_def add_instruction_def add_account_def
  found_in_table_def shortvec_length_def instruction_size_def lookup_size_def Let_def

lemma self_transfer_size:
  "message_size \<lparr>payerKey = k, v0_recentBlockhash = b,
                 v0_instructions = [SystemTransfer k k 100], v0_tables = []\<rparr> =
     (if k = system_program then 88 else 120)"
  by (cases "k = system_program") (simp_all add: size_defs)

lemma test_transfer_size:
  "message_size \<lparr>payerKey = k, v0_recentBlockhash = b,
                 v0_instructions = [SystemTransfer k kTestToPublicKeyInTableLookup 100],
                 v0_tables = []\<rparr> =
     (if k = kTestToPublicKeyInTableLookup \<or> k = system_program then 120 else 152)"
  by (cases "k = system_program"; cases "k = kTestToPublicKeyInTableLookup")
     (simp_all add: size_defs test_recipient_not_system_program)

lemma test_transfer_size_with_table:
  "message_size \<lparr>payerKey = k, v0_recentBlockhash = b,
                 v0_instructions = [SystemTransfer k kTestToPublicKeyInTableLookup 100],
                 v0_tables = [t]\<rparr> =
     (if k = kTestToPublicKeyInTableLookup \<or> k = system_program then 120 else 152) +
     (if kTestToPublicKeyInTableLookup \<in> set (table_addresses t) \<and>
         k \<noteq> kTestToPublicKeyInTableLookup then 3 else 0)"
  by (cases "k = system_program"; cases "k = kTestToPublicKeyInTableLookup";
      cases "kTestToPublicKeyInTableLookup \<in> set (table_addresses t)")
     (simp_all add: size_defs test_recipient_not_system_program)

text \<open>
  C6, as amended. The payload that \<^verbatim>\<open>createTransferTransactionV0WithLookupTable\<close> builds is
  never smaller than the payload of the same instruction compiled without the table: it
  has the same size when the table does not hold the recipient (or the recipient is the
  payer), and is 3 bytes larger when it does, because the reference to the table costs
  its 32-byte address, two lengths and one index, and saves one 32-byte key. The payload
  of \<^verbatim>\<open>createTransferTransactionV0\<close> is for another instruction, a transfer to the payer
  itself, and takes 120 bytes; the transfer to the test recipient takes 152 bytes without
  the table (a payer that is the test recipient or the system program is one key less:
  32 bytes less).
\<close>

theorem lookup_table_payload_size:
  assumes with_table: "createTransferTransactionV0WithLookupTable e a w = (Inr (Some m), w')"
    and plain: "createTransferTransactionV0 e v = (Inr (Some m0), v')"
  shows "message_size (m\<lparr>v0_tables := []\<rparr>) \<le> message_size m \<and>
         message_size m =
           message_size (m\<lparr>v0_tables := []\<rparr>) +
             (if kTestToPublicKeyInTableLookup \<in> set (concat (map table_addresses (v0_tables m))) \<and>
                 payerKey m \<noteq> kTestToPublicKeyInTableLookup
              then 3 else 0) \<and>
         message_size m0 = (if payerKey m0 = system_program then 88 else 120) \<and>
         message_size (m\<lparr>v0_tables := []\<rparr>) =
           (if payerKey m = kTestToPublicKeyInTableLookup \<or> payerKey m = system_program
            then 120 else 152)"
proof -
  obtain k b t where m: "m = \<lparr>payerKey = k, v0_recentBlockhash = b,
      v0_instructions = [SystemTransfer k kTestToPublicKeyInTableLookup 100], v0_tables = [t]\<rparr>"
    using with_table
    by (auto simp: createTransferTransactionV0WithLookupTable_def call_defs io_defs
        split: option.splits sum.splits)
  obtain k0 b0 where m0: "m0 = \<lparr>payerKey = k0, v0_recentBlockhash = b0,
      v0_instructions = [SystemTransfer k0 k0 100], v0_tables = []\<rparr>"
    using plain
    by (auto simp: createTransferTransactionV0_def call_defs io_defs
        split: option.splits sum.splits)
  show ?thesis
    unfolding m m0
    by (simp add: self_transfer_size test_transfer_size test_transfer_size_with_table)
qed

text \<open>
  The amended C6 on \<open>env0\<close>, whose node answers the request for the table with a table that
  holds the test recipient.
\<close>

theorem lookup_table_payload_size_witness:
  "fst (createTransferTransactionV0WithLookupTable env0 devnet_lookup_table (initial_world sdk0)) =
     Inr (Some message_with_table) \<and>
   fst (createTransferTransactionV0 env0 (initial_world sdk0)) = Inr (Some message_self) \<and>
   message_size message_with_table = message_size (message_with_table\<lparr>v0_tables := []\<rparr>) + 3 \<and>
   message_size message_self = 120 \<and>
   message_size (message_with_table\<lparr>v0_tables := []\<rparr>) = 152"
proof -
  let ?w = "(initial_world sdk0)
     \<lparr>trace := [Rpc devnet (GetAddressLookupTable devnet_lookup_table),
                Rpc devnet GetLatestBlockhash]\<rparr>"
  let ?v = "(initial_world sdk0)\<lparr>trace := [Rpc devnet GetLatestBlockhash]\<rparr>"
  have with_table:
    "createTransferTransactionV0WithLookupTable env0 devnet_lookup_table (initial_world sdk0) =
       (Inr (Some message_with_table), ?w)"
    by (simp add: createTransferTransactionV0WithLookupTable_def call_defs io_defs env0_def
        wallet0_def rpc0_def sdk0_def initial_world_def message_with_table_def table0_def
        devnet_def)
  have plain: "createTransferTransactionV0 env0 (initial_world sdk0) =
       (Inr (Some message_self), ?v)"
    by (simp add: createTransferTransactionV0_def call_defs io_defs env0_def wallet0_def
        rpc0_def sdk0_def initial_world_def message_self_def devnet_def)
  have held: "kTestToPublicKeyInTableLookup \<in>
                set (concat (map table_addresses (v0_tables message_with_table)))"
    "payerKey message_with_table \<noteq> kTestToPublicKeyInTableLookup"
    "payerKey message_with_table \<noteq> system_program"
    "payerKey message_self \<noteq> system_program"
    by (simp_all add: message_with_table_def message_self_def table0_def
        kTestToPublicKeyInTableLookup_def system_program_def)
  show ?thesis
    using lookup_table_payload_size[OF with_table plain] held with_table plain by simp
qed

text \<open>
  C6 as stated fails: on \<open>env0\<close> the payload compiled with the table takes 155 bytes, the
  payload of the same instruction compiled without it 152, and the payload that
  \<^verbatim>\<open>createTransferTransactionV0\<close> builds 120.
\<close>

theorem lookup_table_payload_size_counterexample:
  "fst (createTransferTransactionV0WithLookupTable env0 devnet_lookup_table (initial_world sdk0)) =
     Inr (Some message_with_table) \<and>
   fst (createTransferTransactionV0 env0 (initial_world sdk0)) = Inr (Some message_self) \<and>
   message_size message_with_table = 155 \<and>
   message_size (message_with_table\<lparr>v0_tables := []\<rparr>) = 152 \<and>
   message_size message_self = 120 \<and>
   \<not> message_size message_with_table \<le> message_size (message_with_table\<lparr>v0_tables := []\<rparr>) \<and>
   \<not> message_size message_with_table \<le> message_size message_self"
proof -
  have a: "fst (createTransferTransactionV0WithLookupTable env0 devnet_lookup_table
                  (initial_world sdk0)) = Inr (Some message_with_table)"
    by (simp add: createTransferTransactionV0WithLookupTable_def call_defs io_defs env0_def
        wallet0_def rpc0_def sdk0_def initial_world_def message_with_table_def table0_def
        devnet_def)
  have b: "fst (createTransferTransactionV0 env0 (initial_world sdk0)) = Inr (Some message_self)"
    by (simp add: createTransferTransactionV0_def call_defs io_defs env0_def wallet0_def
        rpc0_def sdk0_def initial_world_def message_self_def devnet_def)
  have c: "message_size message_with_table = 155"
    by (simp add: message_with_table_def table0_def size_defs system_program_def
        kTestToPublicKeyInTableLookup_def)
  have d: "message_size (message_with_table\<lparr>v0_tables := []\<rparr>) = 152"
    by (simp add: message_with_table_def size_defs system_program_def
        kTestToPublicKeyInTableLookup_def)
  have e: "message_size message_self = 120"
    by (simp add: message_self_def size_defs system_program_def)
  show ?thesis using a b c d e by simp
qed

subsection \<open>C7: cluster selection\<close>

text \<open>
  C7. Selecting a cluster other than the current one replaces the connection by a new
  client for the endpoint of the selected cluster and appends exactly one log line, which
  names the new cluster. The selected cluster ranges over the three constructors of
  \<open>cluster\<close>.
\<close>

theorem cluster_change_replaces_connection:
  "c \<noteq> cluster w \<Longrightarrow>
     connection (change_cluster s c w) = Connection (clusterApiUrl s c) \<and>
     cluster (change_cluster s c w) = c \<and>
     logs (change_cluster s c w) = logs w @ [''> [cluster changed] '' @ cluster_name c]"
  by (simp add: change_cluster_def useEffect_cluster_def select_onChange_def setCluster_def
      setConnection_def addLog_def)

theorem cluster_change_replaces_connection_witness:
  "Testnet \<noteq> cluster (initial_world sdk0) \<and>
   connection (change_cluster sdk0 Testnet (initial_world sdk0)) =
     Connection ''https://api.testnet.solana.com'' \<and>
   cluster (change_cluster sdk0 Testnet (initial_world sdk0)) = Testnet \<and>
   logs (change_cluster sdk0 Testnet (initial_world sdk0)) = [''> [cluster changed] testnet'']"
proof -
  have h: "Testnet \<noteq> cluster (initial_world sdk0)" by (simp add: initial_world_def)
  show ?thesis
    using cluster_change_replaces_connection[OF h, of sdk0] h
    by (simp add: initial_world_def sdk0_def)
qed

subsection \<open>C8: provider detection\<close>



text \<open>The two other hosts: no \<^verbatim>\<open>solana\<close> property, and the wallet \<open>wallet0\<close>.\<close>

lemma getProvider_on_hosts:
  "getProvider window_empty = (Inr None, [WindowOpen ''https://phantom.app/'' ''_blank''])"
  "getProvider window_phantom = (Inr (Some wallet0), [])"
  by (simp_all add: getProvider_def window_empty_def window_phantom_def wallet0_def)

subsection \<open>C9: the log is append-only\<close>

text \<open>
  C9. \<open>addLog\<close> appends exactly one entry, the given line after \<^verbatim>\<open>"> "\<close>, and keeps what
  was there. Every operation of the page (first render, any click handler of either file,
  any wallet event, a cluster selection, the cleanup) leaves a log that is the old log
  followed by entries that each start with \<^verbatim>\<open>"> "\<close>. In the model, as in the source, no
  definition other than \<open>addLog\<close> writes the \<open>logs\<close> field.
\<close>

theorem log_append_only:
  "logs (addLog l w) = logs w @ [''> '' @ l] \<and>
   (\<exists>ms. logs (run e op w) = logs w @ map (\<lambda>m. ''> '' @ m) ms)"
proof
  show "logs (addLog l w) = logs w @ [''> '' @ l]" by (simp add: addLog_def)
next
  show "\<exists>ms. logs (run e op w) = logs w @ map (\<lambda>m. ''> '' @ m) ms"
  proof (cases op)
    case FirstRender
    have "logs (run e op w) =
            logs w @ map (\<lambda>m. ''> '' @ m) [''[cluster changed] '' @ cluster_name (cluster w)]"
      by (simp add: FirstRender first_render_def useEffect_provider_def eager_connect_try_def
          connect_call_def call_provider_def addLog_def split: sum.split)
    then show ?thesis ..
  next
    case (Click h)
    then show ?thesis using grows_run_handler[of w e h] by (simp add: grows_def)
  next
    case (WalletEvent ev)
    then show ?thesis using logs_handle_event[of "provider e" ev w] by simp
  next
    case (App_WalletEvent ev)
    then show ?thesis using logs_App_handle_event[of "provider e" ev w] by simp
  next
    case (SelectCluster c)
    have "logs (run e op w) = logs w @ map (\<lambda>m. ''> '' @ m)
       (if c = cluster w then [] else [''[cluster changed] '' @ cluster_name c])"
      by (simp add: SelectCluster change_cluster_def useEffect_cluster_def select_onChange_def
          setCluster_def setConnection_def addLog_def)
    then show ?thesis ..
  next
    case Unmount
    have "logs (run e op w) = logs w @ map (\<lambda>m. ''> '' @ m) []"
      by (simp add: Unmount useEffect_provider_cleanup_def disconnect_call_def call_provider_def
          split: sum.split)
    then show ?thesis ..
  qed
qed

subsection \<open>C10: no connected account\<close>

text \<open>
  C10. When \<^verbatim>\<open>provider.publicKey\<close> is null, each builder returns nothing and leaves the
  state as it was: no request for a block hash or a lookup table is made. Each
  sign-and-send handler of either file then returns with the state unchanged: no wallet
  call, no log line.
\<close>

theorem no_account_no_signing:
  assumes "wallet_publicKey (provider e) = None"
  shows "createTransferTransaction e w = (Inr None, w) \<and>
         createSplTokenTransferTransaction e w = (Inr None, w) \<and>
         App_createSplTokenTransferTransaction e w = (Inr None, w) \<and>
         createTransferTransactionV0 e w = (Inr None, w) \<and>
         createTransferTransactionV0WithLookupTable e a w = (Inr None, w) \<and>
         signAndSendTransaction e w = w \<and>
         signAndSendTransactionV0 e w = w \<and>
         signAndSendTransactionV0WithLookupTable e w = w \<and>
         signAndSendTransactionRequest e w = w \<and>
         signAndSendSplTokenTransaction e w = w \<and>
         App_signAndSendTransaction e w = w \<and>
         App_signAndSendSplTokenTransaction e w = w"
proof -
  have b: "createTransferTransaction e w = (Inr None, w)"
    "createSplTokenTransferTransaction e w = (Inr None, w)"
    "App_createSplTokenTransferTransaction e w = (Inr None, w)"
    "createTransferTransactionV0 e w = (Inr None, w)"
    "createTransferTransactionV0WithLookupTable e a w = (Inr None, w)"
    "createTransferTransactionV0WithLookupTable e devnet_lookup_table w = (Inr None, w)"
    using assms
    by (simp_all add: createTransferTransaction_def createSplTokenTransferTransaction_def
        App_createSplTokenTransferTransaction_def createTransferTransactionV0_def
        createTransferTransactionV0WithLookupTable_def resolve_def)
  have h: "signAndSendTransaction e w = w" "signAndSendTransactionV0 e w = w"
    "signAndSendTransactionV0WithLookupTable e w = w" "signAndSendTransactionRequest e w = w"
    "signAndSendSplTokenTransaction e w = w" "App_signAndSendTransaction e w = w"
    "App_signAndSendSplTokenTransaction e w = w"
    by (simp_all add: handler_defs try_catch_def await_def resolve_def b
        signAndSendTransaction_try_def signAndSendTransactionV0_try_def
        signAndSendTransactionV0WithLookupTable_try_def signAndSendTransactionRequest_try_def
        signAndSendSplTokenTransaction_try_def App_signAndSendTransaction_try_def
        App_signAndSendSplTokenTransaction_try_def)
  show ?thesis using b h by simp
qed

theorem no_account_no_signing_witness:
  "wallet_publicKey (provider env_locked) = None \<and>
   createTransferTransaction env_locked (initial_world sdk0) = (Inr None, initial_world sdk0) \<and>
   createTransferTransactionV0WithLookupTable env_locked devnet_lookup_table (initial_world sdk0) =
     (Inr None, initial_world sdk0) \<and>
   trace (signAndSendTransaction env_locked (initial_world sdk0)) = [] \<and>
   logs (signAndSendTransactionRequest env_locked (initial_world sdk0)) = []"
proof -
  have h: "wallet_publicKey (provider env_locked) = None"
    by (simp add: env_locked_def wallet_locked_def)
  show ?thesis
    using no_account_no_signing[OF h, of "initial_world sdk0" devnet_lookup_table] h
    by (simp add: initial_world_def)
qed

end
